theory Spec2Isabelle
  imports Complex_Main "HOL-Library.Sublist"
begin

section \<open>JavaScript values used by the course screens\<close>

text \<open>
  An optional string field of a JavaScript object (\<open>null\<close> or \<open>undefined\<close> when it is
  missing) is a \<open>string option\<close>. A string is truthy when it is present and not empty.
  \<open>a || b\<close> is \<open>a\<close> when \<open>a\<close> is truthy and \<open>b\<close> otherwise.
\<close>

definition truthy :: "string option \<Rightarrow> bool" where
  "truthy v = (case v of None \<Rightarrow> False | Some s \<Rightarrow> s \<noteq> [])"

definition or_js :: "string option \<Rightarrow> string option \<Rightarrow> string option" where
  "or_js a b = (if truthy a then a else b)"

definition or_default :: "string option \<Rightarrow> string \<Rightarrow> string" where
  "or_default a d = (case a of None \<Rightarrow> d | Some s \<Rightarrow> if s = [] then d else s)"

text \<open>\<open>s.split(c)\<close> for a one-character separator: the pieces between the separators,
  never an empty array.\<close>

fun split_js :: "char \<Rightarrow> string \<Rightarrow> string list" where
  "split_js c [] = [[]]"
| "split_js c (x # xs) =
     (if x = c then [] # split_js c xs
      else (case split_js c xs of
              [] \<Rightarrow> [[x]]
            | p # ps \<Rightarrow> (x # p) # ps))"

text \<open>\<open>s.includes(t)\<close>: \<open>t\<close> occurs in \<open>s\<close> as a contiguous substring.\<close>

fun includes_js :: "string \<Rightarrow> string \<Rightarrow> bool" where
  "includes_js [] t = (t = [])"
| "includes_js (x # xs) t = (prefix t (x # xs) \<or> includes_js xs t)"

text \<open>\<open>s.startsWith(t)\<close>.\<close>

definition startsWith :: "string \<Rightarrow> string \<Rightarrow> bool" where
  "startsWith s t = prefix t s"

text \<open>\<open>s.toLowerCase()\<close> on the ASCII letters; every other character is left as it is.\<close>

definition lower_char :: "char \<Rightarrow> char" where
  "lower_char c =
     (case map_of (zip ''ABCDEFGHIJKLMNOPQRSTUVWXYZ'' ''abcdefghijklmnopqrstuvwxyz'') c of
        None \<Rightarrow> c
      | Some d \<Rightarrow> d)"

definition toLowerCase :: "string \<Rightarrow> string" where
  "toLowerCase s = map lower_char s"

section \<open>Lessons and the lesson-type resolver\<close>

record lesson =
  lesson_id :: nat
  lesson_title :: "string option"
  lesson_description :: "string option"
  lesson_type :: "string option"
  content_url :: "string option"
  content_file :: "string option"
  is_completed :: "bool option"

text \<open>\<open>lesson.content_url || lesson.content_file || ''\<close>\<close>

definition lesson_url :: "'a lesson_scheme \<Rightarrow> string" where
  "lesson_url l = or_default (or_js (content_url l) (content_file l)) []"

text \<open>\<open>url.split('.').pop().split('?')[0].toLowerCase()\<close>: both arrays are non-empty,
  so \<open>pop\<close> is the last piece and \<open>[0]\<close> the first.\<close>

definition url_ext :: "string \<Rightarrow> string" where
  "url_ext url = toLowerCase (hd (split_js (CHR ''?'') (last (split_js (CHR ''.'') url))))"

definition inferLessonType :: "'a lesson_scheme \<Rightarrow> string" where
  "inferLessonType l =
     (let url = lesson_url l in
      if url = [] then ''unknown''
      else
        let ext = url_ext url in
        if includes_js url ''youtube.com'' \<or> includes_js url ''youtu.be'' then ''youtube''
        else if ext = ''pdf'' then ''pdf''
        else if ext = ''ppt'' \<or> ext = ''pptx'' then ''ppt''
        else if ext = ''doc'' \<or> ext = ''docx'' then ''doc''
        else if truthy (lesson_type l) \<and> lesson_type l \<noteq> Some ''Unknown''
                \<and> lesson_type l \<noteq> Some ''unknown'' \<and> lesson_type l \<noteq> None
          then the (lesson_type l)
        else if startsWith url ''http'' then ''link''
        else ''unknown'')"

subsection \<open>The first-match algorithm of section 4.1\<close>





















section \<open>Numbers\<close>

text \<open>
  A JavaScript number is an IEEE double. Every finite double is a rational, so a number is a
  \<open>rat\<close>, and an operation that rounds is the exact operation followed by the rounding to
  the nearest double: 53 significant bits, a tie going to the even significand. This is the
  rounding of the normal doubles, whose magnitudes go from \<open>2^-1022\<close> up to \<open>2^1024\<close>; below
  them a double is subnormal and above them infinite, which the model leaves out. The
  quotients and products of the module progress lie between \<open>2^-33\<close> and 200.
\<close>

type_synonym number = rat

text \<open>\<open>scale f x e\<close> brings \<open>x\<close> between \<open>2^52\<close> and \<open>2^53\<close> by halving or doubling it, at most
  \<open>f\<close> times, and keeps \<open>x * 2^e\<close> as it was.\<close>

fun scale :: "nat \<Rightarrow> rat \<Rightarrow> int \<Rightarrow> rat \<times> int" where
  "scale 0 x e = (x, e)"
| "scale (Suc f) x e =
     (if 2 ^ 53 \<le> x then scale f (x / 2) (e + 1)
      else if x < 2 ^ 52 then scale f (2 * x) (e - 1)
      else (x, e))"

definition round_half_even :: "rat \<Rightarrow> int" where
  "round_half_even y =
     (let n = \<lfloor>y\<rfloor>; r = y - of_int n
      in if r < 1 / 2 then n
         else if 1 / 2 < r then n + 1
         else if even n then n else n + 1)"

definition nearest_double :: "rat \<Rightarrow> number" where
  "nearest_double x =
     (if x = 0 then 0
      else if 0 < x then (case scale 2200 x 0 of (y, e) \<Rightarrow> of_int (round_half_even y) * 2 powi e)
      else - (case scale 2200 (- x) 0 of (y, e) \<Rightarrow> of_int (round_half_even y) * 2 powi e))"

text \<open>\<open>a / b\<close> for a divisor that is not zero, and \<open>a * b\<close>.\<close>

definition js_div :: "number \<Rightarrow> number \<Rightarrow> number" where
  "js_div a b = nearest_double (a / b)"

definition js_mul :: "number \<Rightarrow> number \<Rightarrow> number" where
  "js_mul a b = nearest_double (a * b)"

text \<open>\<open>Math.round(x)\<close> is the integer nearest to \<open>x\<close>, a tie going up; it is exact.\<close>

definition Math_round :: "number \<Rightarrow> int" where
  "Math_round x = \<lfloor>x + 1 / 2\<rfloor>"

definition js_bool :: "bool option \<Rightarrow> bool" where
  "js_bool v = (v = Some True)"

section \<open>Modules and module progress\<close>

record module =
  module_id :: nat
  module_title :: "string option"
  lessons :: "lesson list option"

text \<open>
  \<^verbatim>\<open>if (!module.lessons || module.lessons.length === 0) return 0;
const completedLessons = module.lessons.filter(lesson => lesson.is_completed).length;
return Math.round((completedLessons / module.lessons.length) * 100);\<close>
\<close>

definition calculateModuleProgress :: "'a module_scheme \<Rightarrow> int" where
  "calculateModuleProgress m =
     (case lessons m of
        None \<Rightarrow> 0
      | Some ls \<Rightarrow>
          if length ls = 0 then 0
          else
            let completedLessons = length (filter (\<lambda>lesson. js_bool (is_completed lesson)) ls)
            in Math_round (js_mul (js_div (of_nat completedLessons) (of_nat (length ls))) 100))"

section \<open>Courses: the enrollment records and the list transform\<close>

record resource =
  resource_id :: nat
  resource_title :: "string option"
  resource_description :: "string option"
  resource_type :: "string option"
  resource_content_url :: "string option"
  resource_content_file :: "string option"

record instructor =
  instructor_name :: string

text \<open>The nested \<open>course.course\<close> object of an enrollment, as the backend sends it.\<close>

record course_info =
  info_id :: nat
  info_title :: "string option"
  info_thumbnail :: "string option"
  info_description :: "string option"
  info_resources :: "resource list option"
  info_modules :: "module list option"
  info_instructors :: "instructor list option"

text \<open>An element of the \<open>courses\<close> prop. A missing \<open>progress\<close> compares like 0 in
  \<open>course.progress > 0\<close>, so the field is a number.\<close>

record enrollment =
  enrollment_id :: nat
  course :: "course_info option"
  user :: "nat option"
  user_id :: "nat option"
  progress :: number
  started_at :: "string option"
  completed_at :: "string option"
  bookmarked :: "bool option"
  enrolled_at :: "string option"

datatype status = NotStarted | InProgress | Completed

text \<open>An element of \<open>filteredCourses\<close>: the enrollment spread (\<open>...course\<close>) and the fields
  the transform adds.\<close>

record enrolled_course = enrollment +
  courseId :: nat
  title :: string
  thumbnail :: string
  description :: string
  resources :: "resource list"
  modules :: "module list"
  instructors :: "instructor list"
  status :: status

datatype js_error = TypeError | ReferenceError | RequestFailed

definition transformLesson :: "lesson \<Rightarrow> lesson" where
  "transformLesson l = l\<lparr>is_completed := Some (js_bool (is_completed l))\<rparr>"

definition transformModule :: "module \<Rightarrow> module" where
  "transformModule m =
     m\<lparr>lessons := Some (map transformLesson (case lessons m of None \<Rightarrow> [] | Some ls \<Rightarrow> ls))\<rparr>"

text \<open>
  \<open>course.completed_at ? 'completed' : course.progress > 0 ? 'in_progress' : 'not_started'\<close>
\<close>

definition derivedStatus :: "'a enrollment_scheme \<Rightarrow> status" where
  "derivedStatus c =
     (if truthy (completed_at c) then Completed
      else if progress c > 0 then InProgress
      else NotStarted)"

text \<open>
  The body of the \<open>map\<close> callback, which both effects of \<open>StudentCourseList\<close> carry word
  for word. An enrollment without \<open>course\<close> gives \<open>null\<close> (\<open>None\<close>);
  \<open>course.course.thumbnail.includes('http')\<close> throws a TypeError when the thumbnail is
  missing. \<open>API_BASE_URL\<close> comes from the configuration module and is a parameter.
\<close>

definition transformCourse :: "string \<Rightarrow> enrollment \<Rightarrow> js_error + enrolled_course option" where
  "transformCourse API_BASE_URL c =
     (case course c of
        None \<Rightarrow> Inr None
      | Some info \<Rightarrow>
          (case info_thumbnail info of
             None \<Rightarrow> Inl TypeError
           | Some th \<Rightarrow>
               Inr (Some (enrollment.extend c
                 (enrolled_course.fields
                    (info_id info)
                    (or_default (info_title info) ''Untitled Course'')
                    (if includes_js th ''http'' then th else API_BASE_URL @ th)
                    (or_default (info_description info) [])
                    (case info_resources info of None \<Rightarrow> [] | Some rs \<Rightarrow> rs)
                    (map transformModule (case info_modules info of None \<Rightarrow> [] | Some ms \<Rightarrow> ms))
                    (case info_instructors info of None \<Rightarrow> [] | Some is \<Rightarrow> is)
                    (derivedStatus c))))))"

text \<open>\<open>courses.map(...)\<close>: the first callback that throws ends the whole map.\<close>

fun map_throwing :: "('a \<Rightarrow> js_error + 'b) \<Rightarrow> 'a list \<Rightarrow> js_error + 'b list" where
  "map_throwing f [] = Inr []"
| "map_throwing f (x # xs) =
     (case f x of
        Inl e \<Rightarrow> Inl e
      | Inr y \<Rightarrow> (case map_throwing f xs of Inl e \<Rightarrow> Inl e | Inr ys \<Rightarrow> Inr (y # ys)))"

text \<open>\<open>courses.map(...).filter(course => course !== null)\<close>\<close>

definition transformedCourses :: "string \<Rightarrow> enrollment list \<Rightarrow> js_error + enrolled_course list" where
  "transformedCourses API_BASE_URL courses =
     (case map_throwing (transformCourse API_BASE_URL) courses of
        Inl e \<Rightarrow> Inl e
      | Inr cs \<Rightarrow> Inr (concat (map (\<lambda>c. case c of None \<Rightarrow> [] | Some x \<Rightarrow> [x]) cs)))"

section \<open>Updating the progress of a course in the list\<close>

text \<open>
  \<^verbatim>\<open>setFilteredCourses(prev => prev.map(course =>
  course.courseId === courseId
    ? { ...course, progress: newProgress, status: newStatus,
        started_at: startedAt, completed_at: completedAt }
    : course));\<close>
  The fields that the model does not name are the extension part of the record.
\<close>

definition handleCourseProgressUpdate ::
  "nat \<Rightarrow> number \<Rightarrow> status \<Rightarrow> string option \<Rightarrow> string option \<Rightarrow>
   'a enrolled_course_scheme list \<Rightarrow> 'a enrolled_course_scheme list" where
  "handleCourseProgressUpdate cid newProgress newStatus startedAt completedAt prev =
     map (\<lambda>c. if courseId c = cid
               then c\<lparr>progress := newProgress, status := newStatus,
                      started_at := startedAt, completed_at := completedAt\<rparr>
               else c) prev"

section \<open>Completing a lesson\<close>

text \<open>
  \<open>coursesAPI\<close> is the REST client that the configuration module exports. Each of its two
  calls used here is a function of the backend state that returns the new backend state and
  either a rejection (the awaited promise throws) or the response. The response of
  \<open>getCourseProgress\<close> is its \<open>data.progress\<close>, a number; a response without \<open>data\<close> throws
  inside the same \<open>try\<close> and is a rejection here.
\<close>

record 'b coursesAPI =
  completeLesson :: "nat option \<Rightarrow> nat \<Rightarrow> 'b \<Rightarrow> (js_error + unit) \<times> 'b"
  getCourseProgress :: "nat option \<Rightarrow> nat \<Rightarrow> 'b \<Rightarrow> (js_error + number) \<times> 'b"

text \<open>
  What the identifier \<open>coursesAPI\<close> is bound to where the handler runs: \<open>None\<close> when the
  module binds nothing to it, and then evaluating \<open>coursesAPI.completeLesson\<close> throws a
  ReferenceError. The module of the course list imports from the configuration module
  \<open>API_BASE_URL\<close> and nothing else, so in this module the identifier is unbound. (The module of
  the assignments has \<open>import { coursesAPI } from '../../../config'\<close>.)
\<close>

definition coursesAPI_in_scope :: "'b coursesAPI option" where
  "coursesAPI_in_scope = None"

text \<open>What leaves and enters the client, in the order in which it happens.\<close>

datatype api_event =
    CompleteLessonRequest "nat option" nat
  | CompleteLessonResolved
  | CompleteLessonRejected
  | GetCourseProgressRequest "nat option" nat
  | GetCourseProgressResolved number
  | GetCourseProgressRejected

text \<open>
  The state that \<open>handleLessonComplete\<close> can touch: the backend, the list of the parent
  (\<open>filteredCourses\<close>), the \<open>courseProgress\<close> of the dialog, the console and the
  traffic with the backend.
\<close>

record 'b world =
  backend :: 'b
  filteredCourses :: "enrolled_course list"
  courseProgress :: number
  console :: "string list"
  traffic :: "api_event list"

text \<open>\<open>const userId = course.user || course.user_id\<close>; the number 0 is falsy.\<close>

definition userId :: "'a enrollment_scheme \<Rightarrow> nat option" where
  "userId c = (case user c of
                 None \<Rightarrow> user_id c
               | Some u \<Rightarrow> if u = 0 then user_id c else Some u)"

definition console_error :: "string \<Rightarrow> 'b world \<Rightarrow> 'b world" where
  "console_error msg w = w\<lparr>console := console w @ [msg]\<rparr>"

text \<open>
  \<^verbatim>\<open>let newStatus = course.status;
let completedAt = course.completed_at;
let startedAt = course.started_at;
if (newProgress === 100) {
  newStatus = 'completed';
  completedAt = new Date().toISOString();
} else if (newProgress > 0 && !course.started_at) {
  newStatus = 'in_progress';
  startedAt = new Date().toISOString();
}\<close>
  \<open>course\<close> is the \<open>course\<close> prop of the dialog, the course object that the dialog was opened
  with, and \<open>now\<close> is what \<open>new Date().toISOString()\<close> returns.
\<close>

definition progressOutcome ::
  "string \<Rightarrow> enrolled_course \<Rightarrow> number \<Rightarrow> status \<times> string option \<times> string option" where
  "progressOutcome now c newProgress =
     (if newProgress = 100 then (Completed, started_at c, Some now)
      else if newProgress > 0 \<and> \<not> truthy (started_at c) then (InProgress, Some now, completed_at c)
      else (status c, started_at c, completed_at c))"

text \<open>
  \<^verbatim>\<open>try {
  await coursesAPI.completeLesson({ user: userId, lesson: lesson.id });
  const progressRes = await coursesAPI.getCourseProgress({ user: userId, course: course.courseId });
  const newProgress = progressRes.data.progress;
  setCourseProgress(newProgress);
  ...
  onCourseProgressUpdate(course.courseId, newProgress, newStatus, startedAt, completedAt);
} catch (error) {
  console.error('Error completing lesson or fetching progress:', error);
}\<close>
  The first argument is the binding of \<open>coursesAPI\<close>. When there is none, the first statement
  of the \<open>try\<close> throws before any request leaves, and the \<open>catch\<close> logs.
\<close>

definition handleLessonComplete ::
  "'b coursesAPI option \<Rightarrow> string \<Rightarrow> enrolled_course \<Rightarrow> 'a lesson_scheme \<Rightarrow> 'b world \<Rightarrow> 'b world" where
  "handleLessonComplete binding now c l w =
     (case binding of
        None \<Rightarrow> console_error ''Error completing lesson or fetching progress:'' w
      | Some api \<Rightarrow>
     (let w1 = w\<lparr>traffic := traffic w @ [CompleteLessonRequest (userId c) (lesson_id l)]\<rparr>;
          (r1, b1) = completeLesson api (userId c) (lesson_id l) (backend w1)
      in (case r1 of
           Inl e \<Rightarrow>
             console_error ''Error completing lesson or fetching progress:''
               (w1\<lparr>backend := b1, traffic := traffic w1 @ [CompleteLessonRejected]\<rparr>)
         | Inr u \<Rightarrow>
             (let w2 = w1\<lparr>backend := b1,
                         traffic := traffic w1 @
                           [CompleteLessonResolved, GetCourseProgressRequest (userId c) (courseId c)]\<rparr>;
                 (r2, b2) = getCourseProgress api (userId c) (courseId c) (backend w2)
              in (case r2 of
                    Inl e \<Rightarrow>
                      console_error ''Error completing lesson or fetching progress:''
                        (w2\<lparr>backend := b2, traffic := traffic w2 @ [GetCourseProgressRejected]\<rparr>)
                  | Inr newProgress \<Rightarrow>
                      (let w3 = w2\<lparr>backend := b2,
                                  traffic := traffic w2 @ [GetCourseProgressResolved newProgress],
                                  courseProgress := newProgress\<rparr>;
                          (newStatus, startedAt, completedAt) = progressOutcome now c newProgress
                       in w3\<lparr>filteredCourses :=
                               handleCourseProgressUpdate (courseId c) newProgress newStatus
                                 startedAt completedAt (filteredCourses w3)\<rparr>))))))"

text \<open>
  The ways a run can go wrong: the client is unbound, the completion call is rejected, or
  the completion call resolves and the progress fetch is rejected.
\<close>

definition completion_resolves ::
  "'b coursesAPI option \<Rightarrow> enrolled_course \<Rightarrow> 'a lesson_scheme \<Rightarrow> 'b world \<Rightarrow> bool" where
  "completion_resolves binding c l w =
     (case binding of
        None \<Rightarrow> False
      | Some api \<Rightarrow>
          (case fst (completeLesson api (userId c) (lesson_id l) (backend w)) of
             Inl e \<Rightarrow> False | Inr u \<Rightarrow> True))"

definition progress_fetch_resolves ::
  "'b coursesAPI option \<Rightarrow> enrolled_course \<Rightarrow> 'a lesson_scheme \<Rightarrow> 'b world \<Rightarrow> bool" where
  "progress_fetch_resolves binding c l w =
     (case binding of
        None \<Rightarrow> False
      | Some api \<Rightarrow>
          (case completeLesson api (userId c) (lesson_id l) (backend w) of
             (Inl e, b1) \<Rightarrow> False
           | (Inr u, b1) \<Rightarrow>
               (case fst (getCourseProgress api (userId c) (courseId c) b1) of
                  Inl e \<Rightarrow> False | Inr p \<Rightarrow> True)))"

definition run_fails ::
  "'b coursesAPI option \<Rightarrow> enrolled_course \<Rightarrow> 'a lesson_scheme \<Rightarrow> 'b world \<Rightarrow> bool" where
  "run_fails binding c l w = (\<not> progress_fetch_resolves binding c l w)"

text \<open>The backend state that a run leaves: each call that is made acts on it once, the
  progress fetch on what the completion call left.\<close>

definition backend_after ::
  "'b coursesAPI option \<Rightarrow> enrolled_course \<Rightarrow> 'a lesson_scheme \<Rightarrow> 'b \<Rightarrow> 'b" where
  "backend_after binding c l b =
     (case binding of
        None \<Rightarrow> b
      | Some api \<Rightarrow>
          (case completeLesson api (userId c) (lesson_id l) b of
             (Inl e, b1) \<Rightarrow> b1
           | (Inr u, b1) \<Rightarrow> snd (getCourseProgress api (userId c) (courseId c) b1)))"

text \<open>The traffic of one run: what it appended.\<close>

definition run_traffic :: "'b world \<Rightarrow> 'b world \<Rightarrow> api_event list" where
  "run_traffic w w' = drop (length (traffic w)) (traffic w')"

text \<open>
  A trace is sequential when every request is answered before the next request leaves, and
  the progress fetch follows the completion when a progress request leaves only right after
  the completion call has resolved.
\<close>

fun is_request :: "api_event \<Rightarrow> bool" where
  "is_request (CompleteLessonRequest u l) = True"
| "is_request (GetCourseProgressRequest u c) = True"
| "is_request e = False"

fun sequential :: "api_event list \<Rightarrow> bool" where
  "sequential [] = True"
| "sequential (CompleteLessonRequest u l # CompleteLessonResolved # es) = sequential es"
| "sequential (CompleteLessonRequest u l # CompleteLessonRejected # es) = sequential es"
| "sequential (GetCourseProgressRequest u c # GetCourseProgressResolved p # es) = sequential es"
| "sequential (GetCourseProgressRequest u c # GetCourseProgressRejected # es) = sequential es"
| "sequential es = False"

fun fetch_after_completion :: "api_event option \<Rightarrow> api_event list \<Rightarrow> bool" where
  "fetch_after_completion prev [] = True"
| "fetch_after_completion prev (GetCourseProgressRequest u c # es) =
     (prev = Some CompleteLessonResolved \<and>
      fetch_after_completion (Some (GetCourseProgressRequest u c)) es)"
| "fetch_after_completion prev (e # es) = fetch_after_completion (Some e) es"

section \<open>The media player\<close>

text \<open>The \<open>video\<close> element behind \<open>videoRef.current\<close>, as far as the handlers read and
  write it.\<close>

record video_element =
  currentTime :: number
  element_duration :: number
  element_volume :: number
  element_playbackRate :: number
  element_paused :: bool

text \<open>
  The state of one \<open>MediaPlayer\<close>: its \<open>useState\<close> cells, the ref, and the \<open>onEnded\<close>
  prop (whether the parent passed one, and how often the player has called it). The state
  cell \<open>progress\<close> is \<open>slider_progress\<close> here; it is \<open>None\<close> when the source computes a value
  that is not a finite number.
\<close>

record player =
  playing :: bool
  muted :: bool
  volume :: int
  slider_progress :: "number option"
  duration :: number
  fullscreen :: bool
  playbackRate :: number
  completed :: bool
  videoRef :: "video_element option"
  onEnded_provided :: bool
  onEnded_calls :: nat

definition initial_player :: "video_element option \<Rightarrow> bool \<Rightarrow> player" where
  "initial_player v cb =
     \<lparr>playing = False, muted = False, volume = 80, slider_progress = Some 0, duration = 0,
      fullscreen = False, playbackRate = 1, completed = False, videoRef = v,
      onEnded_provided = cb, onEnded_calls = 0\<rparr>"

definition handlePlayPause :: "player \<Rightarrow> player" where
  "handlePlayPause p =
     (case videoRef p of
        None \<Rightarrow> p
      | Some v \<Rightarrow> p\<lparr>videoRef := Some (v\<lparr>element_paused := playing p\<rparr>),
                    playing := \<not> playing p\<rparr>)"

text \<open>
  \<^verbatim>\<open>const currentTime = videoRef.current.currentTime;
const newProgress = (currentTime / duration) * 100;
setProgress(newProgress);
if (duration > 0 && currentTime >= duration - 1 && !completed) {
  setCompleted(true);
}\<close>
\<close>

definition handleTimeUpdate :: "player \<Rightarrow> player" where
  "handleTimeUpdate p =
     (case videoRef p of
        None \<Rightarrow> p
      | Some v \<Rightarrow>
          let newProgress =
                (if duration p = 0 then None
                 else Some (js_mul (js_div (currentTime v) (duration p)) 100));
              p1 = p\<lparr>slider_progress := newProgress\<rparr>
          in if duration p > 0 \<and> currentTime v \<ge> duration p - 1 \<and> \<not> completed p
             then p1\<lparr>completed := True\<rparr>
             else p1)"

definition handleLoadedMetadata :: "player \<Rightarrow> player" where
  "handleLoadedMetadata p =
     (case videoRef p of
        None \<Rightarrow> p
      | Some v \<Rightarrow> p\<lparr>duration := element_duration v,
                    videoRef := Some (v\<lparr>element_volume := js_div (of_int (volume p)) 100\<rparr>)\<rparr>)"

definition handlePlaybackRateChange :: "number \<Rightarrow> player \<Rightarrow> player" where
  "handlePlaybackRateChange rate p =
     p\<lparr>playbackRate := rate,
       videoRef := map_option (\<lambda>v. v\<lparr>element_playbackRate := rate\<rparr>) (videoRef p)\<rparr>"

text \<open>The \<open>onEnded\<close> attribute of the \<open>video\<close> element:
  \<^verbatim>\<open>setPlaying(false); setCompleted(true); onEnded && onEnded();\<close>\<close>

definition video_onEnded :: "player \<Rightarrow> player" where
  "video_onEnded p =
     p\<lparr>playing := False, completed := True,
       onEnded_calls := (if onEnded_provided p then onEnded_calls p + 1 else onEnded_calls p)\<rparr>"

text \<open>The Replay button of the completion overlay. The effect on \<open>open\<close> has the same
  body under \<open>if (open && videoRef.current)\<close>.\<close>

definition replay :: "player \<Rightarrow> player" where
  "replay p =
     (case videoRef p of
        None \<Rightarrow> p
      | Some v \<Rightarrow> p\<lparr>videoRef := Some (v\<lparr>currentTime := 0\<rparr>), playing := False,
                    slider_progress := Some 0, completed := False\<rparr>)"

definition open_effect :: "bool \<Rightarrow> player \<Rightarrow> player" where
  "open_effect opened p = (if opened then replay p else p)"

text \<open>The browser moves the playback position to \<open>t\<close> and fires \<open>timeupdate\<close>.\<close>

definition video_timeupdate :: "number \<Rightarrow> player \<Rightarrow> player" where
  "video_timeupdate t p =
     handleTimeUpdate (p\<lparr>videoRef := map_option (\<lambda>v. v\<lparr>currentTime := t\<rparr>) (videoRef p)\<rparr>)"

text \<open>The options of the playback-rate \<open>select\<close>:
  \<^verbatim>\<open>[0.5, 0.75, 1, 1.25, 1.5, 2].map(rate => <option key={rate} value={rate}>...)\<close>\<close>

definition playbackRates :: "number list" where
  "playbackRates = [1 / 2, 3 / 4, 1, 5 / 4, 3 / 2, 2]"

text \<open>A native video of ten seconds, its metadata loaded, with the \<open>onEnded\<close> prop that
  \<open>CourseDialog\<close> passes.\<close>

definition ten_second_video :: player where
  "ten_second_video =
     handleLoadedMetadata
       (initial_player
          (Some \<lparr>currentTime = 0, element_duration = 10, element_volume = 1,
                 element_playbackRate = 1, element_paused = True\<rparr>) True)"

section \<open>Selecting lessons and resources in the course dialog\<close>

record media =
  media_url :: "string option"
  media_title :: string
  media_description :: string
  media_type :: string

record document =
  document_url :: "string option"
  document_title :: string
  document_type :: "string option"

record selected_lesson = lesson +
  detectedType :: string

text \<open>The state cells of \<open>CourseDialog\<close> that the selection handlers write, and the URLs
  handed to \<open>window.open\<close>.\<close>

record dialog =
  selectedLesson :: "selected_lesson option"
  selectedMedia :: "media option"
  selectedDocument :: "document option"
  opened_windows :: "string option list"

definition initial_dialog :: dialog where
  "initial_dialog =
     \<lparr>selectedLesson = None, selectedMedia = None, selectedDocument = None, opened_windows = []\<rparr>"

definition handleLessonSelect :: "lesson \<Rightarrow> dialog \<Rightarrow> dialog" where
  "handleLessonSelect l d =
     (let detected = inferLessonType l;
          d1 = d\<lparr>selectedLesson := Some (lesson.extend l (selected_lesson.fields detected)),
                 selectedMedia := None,
                 selectedDocument := None\<rparr>
      in if detected = ''video'' \<or> detected = ''youtube'' then
           d1\<lparr>selectedMedia := Some
                 \<lparr>media_url = or_js (content_url l) (content_file l),
                  media_title = or_default (lesson_title l) ''Lesson Media'',
                  media_description = or_default (lesson_description l) [],
                  media_type = detected\<rparr>\<rparr>
         else if detected = ''link'' then
           d1\<lparr>opened_windows := opened_windows d1 @ [or_js (content_url l) (content_file l)]\<rparr>
         else if detected = ''pdf'' \<or> detected = ''ppt'' \<or> detected = ''doc'' then
           d1\<lparr>selectedDocument := Some
                 \<lparr>document_url = or_js (content_url l) (content_file l),
                  document_title = or_default (lesson_title l) ''Lesson Document'',
                  document_type = Some detected\<rparr>\<rparr>
         else d1)"

text \<open>\<open>resource.content_url?.includes('youtube.com') || resource.content_url?.includes('youtu.be')\<close>\<close>

definition resource_on_youtube :: "resource \<Rightarrow> bool" where
  "resource_on_youtube r =
     (case resource_content_url r of
        None \<Rightarrow> False
      | Some u \<Rightarrow> includes_js u ''youtube.com'' \<or> includes_js u ''youtu.be'')"

definition handleResourceSelect :: "resource \<Rightarrow> dialog \<Rightarrow> dialog" where
  "handleResourceSelect r d =
     (if resource_type r = Some ''video'' \<or> resource_on_youtube r then
        d\<lparr>selectedMedia := Some
              \<lparr>media_url = or_js (resource_content_url r) (resource_content_file r),
               media_title = or_default (resource_title r) ''Resource Media'',
               media_description = or_default (resource_description r) [],
               media_type = (if resource_on_youtube r then ''youtube'' else ''video'')\<rparr>,
          selectedDocument := None\<rparr>
      else if resource_type r = Some ''link'' then
        d\<lparr>opened_windows := opened_windows d @ [resource_content_url r]\<rparr>
      else
        d\<lparr>selectedDocument := Some
              \<lparr>document_url = or_js (resource_content_url r) (resource_content_file r),
               document_title = or_default (resource_title r) ''Resource Document'',
               document_type = resource_type r\<rparr>,
          selectedMedia := None\<rparr>)"

text \<open>What the user can do to the two viewer cells: select a lesson, select a resource, close
  the media player (\<open>setSelectedMedia(null)\<close>), close the document viewer
  (\<open>setSelectedDocument(null)\<close>), close the dialog (\<open>handleDialogClose\<close>, which also resets
  the sidebar, the expanded modules and the tab, cells that no selection handler reads).\<close>

datatype dialog_event =
    LessonSelect lesson
  | ResourceSelect resource
  | MediaClose
  | DocumentClose
  | DialogClose

fun dialog_step :: "dialog_event \<Rightarrow> dialog \<Rightarrow> dialog" where
  "dialog_step (LessonSelect l) d = handleLessonSelect l d"
| "dialog_step (ResourceSelect r) d = handleResourceSelect r d"
| "dialog_step MediaClose d = d\<lparr>selectedMedia := None\<rparr>"
| "dialog_step DocumentClose d = d\<lparr>selectedDocument := None\<rparr>"
| "dialog_step DialogClose d =
     d\<lparr>selectedLesson := None, selectedMedia := None, selectedDocument := None\<rparr>"

fun dialog_run :: "dialog_event list \<Rightarrow> dialog \<Rightarrow> dialog" where
  "dialog_run [] d = d"
| "dialog_run (e # es) d = dialog_run es (dialog_step e d)"

definition clear_viewers :: "dialog \<Rightarrow> dialog" where
  "clear_viewers d = d\<lparr>selectedMedia := None, selectedDocument := None\<rparr>"

definition one_viewer :: "dialog \<Rightarrow> bool" where
  "one_viewer d = (selectedMedia d = None \<or> selectedDocument d = None)"

definition link_resource :: "resource \<Rightarrow> bool" where
  "link_resource r =
     (resource_type r = Some ''link'' \<and> \<not> resource_on_youtube r)"

section \<open>Concrete lessons, courses and backends\<close>


definition video_lesson :: lesson where
  "video_lesson =
     \<lparr>lesson_id = 1, lesson_title = Some ''Intro'', lesson_description = None,
      lesson_type = Some ''video'', content_url = Some ''https://cdn.example.org/intro.mp4'',
      content_file = None, is_completed = Some True\<rparr>"

definition reading_lesson :: lesson where
  "reading_lesson =
     \<lparr>lesson_id = 2, lesson_title = Some ''Reading'', lesson_description = None,
      lesson_type = None, content_url = None, content_file = Some ''/media/reading.DOCX?dl=1'',
      is_completed = Some False\<rparr>"




definition link_to_forum :: resource where
  "link_to_forum =
     \<lparr>resource_id = 3, resource_title = Some ''Forum'', resource_description = None,
      resource_type = Some ''link'', resource_content_url = Some ''https://forum.example.org'',
      resource_content_file = None\<rparr>"

definition two_lesson_module :: module where
  "two_lesson_module =
     \<lparr>module_id = 1, module_title = Some ''Basics'',
      lessons = Some [video_lesson, reading_lesson]\<rparr>"

text \<open>A module of forty lessons of which twenty-three are completed.\<close>

definition forty_lesson_module :: module where
  "forty_lesson_module =
     \<lparr>module_id = 2, module_title = Some ''Practice'',
      lessons = Some (replicate 23 video_lesson @ replicate 17 reading_lesson)\<rparr>"

definition algebra_info :: course_info where
  "algebra_info =
     \<lparr>info_id = 11, info_title = Some ''Algebra'', info_thumbnail = Some ''/media/algebra.png'',
      info_description = None, info_resources = Some [link_to_forum],
      info_modules = Some [two_lesson_module], info_instructors = None\<rparr>"

definition algebra_enrollment :: enrollment where
  "algebra_enrollment =
     \<lparr>enrollment_id = 5, course = Some algebra_info, user = Some 42, user_id = None,
      progress = 0, started_at = None, completed_at = None, bookmarked = None,
      enrolled_at = Some ''2024-01-05T09:00:00.000Z''\<rparr>"

text \<open>An enrollment that carries a completion timestamp next to a progress of 40.\<close>

definition finished_enrollment :: enrollment where
  "finished_enrollment =
     algebra_enrollment\<lparr>enrollment_id := 6, progress := 40,
       completed_at := Some ''2024-02-01T10:00:00.000Z''\<rparr>"

definition algebra_course :: enrolled_course where
  "algebra_course =
     \<lparr>enrollment_id = 5, course = Some algebra_info, user = Some 42, user_id = None,
      progress = 0, started_at = None, completed_at = None, bookmarked = None,
      enrolled_at = Some ''2024-01-05T09:00:00.000Z'',
      courseId = 11, title = ''Algebra'', thumbnail = ''https://api.example.org/media/algebra.png'',
      description = [], resources = [link_to_forum], modules = [two_lesson_module],
      instructors = [], status = NotStarted\<rparr>"

definition geometry_course :: enrolled_course where
  "geometry_course =
     algebra_course\<lparr>enrollment_id := 8, courseId := 12, title := ''Geometry'', progress := 30,
       started_at := Some ''2024-01-07T08:00:00.000Z'', status := InProgress\<rparr>"

text \<open>
  A backend for a course of two lessons: its state is the number of lessons marked complete,
  and the progress it reports is 50 for each of them. \<open>offline_api\<close> rejects the
  completion call; \<open>flaky_api\<close> accepts it and rejects the progress fetch.
\<close>

definition counting_api :: "nat coursesAPI" where
  "counting_api =
     \<lparr>completeLesson = (\<lambda>u l b. (Inr (), Suc b)),
      getCourseProgress = (\<lambda>u c b. (Inr (of_nat b * 50), b))\<rparr>"

definition offline_api :: "nat coursesAPI" where
  "offline_api =
     \<lparr>completeLesson = (\<lambda>u l b. (Inl RequestFailed, b)),
      getCourseProgress = (\<lambda>u c b. (Inl RequestFailed, b))\<rparr>"

definition flaky_api :: "nat coursesAPI" where
  "flaky_api =
     \<lparr>completeLesson = (\<lambda>u l b. (Inr (), Suc b)),
      getCourseProgress = (\<lambda>u c b. (Inl RequestFailed, b))\<rparr>"

definition world_at :: "nat \<Rightarrow> nat world" where
  "world_at n =
     \<lparr>backend = n, filteredCourses = [algebra_course, geometry_course], courseProgress = 0,
      console = [], traffic = []\<rparr>"

text \<open>The list after a first completion at 50 percent: the Algebra record has its start
  timestamp, while the dialog still holds \<open>algebra_course\<close>, the object it was opened with.\<close>

definition started_algebra :: enrolled_course where
  "started_algebra =
     algebra_course\<lparr>progress := 50, started_at := Some ''2024-02-10T08:30:00.000Z'',
       status := InProgress\<rparr>"

definition started_world :: "nat \<Rightarrow> nat world" where
  "started_world n =
     \<lparr>backend = n, filteredCourses = [started_algebra, geometry_course], courseProgress = 50,
      console = [], traffic = []\<rparr>"

definition noon :: string where
  "noon = ''2024-03-01T12:00:00.000Z''"

section \<open>Properties\<close>

subsection \<open>String lemmas\<close>






















subsection \<open>The lesson-type resolver\<close>





subsection \<open>Rounding to the nearest double\<close>

lemma scale_numeral:
  "scale (numeral k) x e =
     (if 2 ^ 53 \<le> x then scale (pred_numeral k) (x / 2) (e + 1)
      else if x < 2 ^ 52 then scale (pred_numeral k) (2 * x) (e - 1)
      else (x, e))"
  by (simp add: numeral_eq_Suc)

lemma floor_fraction_numeral:
  "\<lfloor>numeral a / numeral b :: rat\<rfloor> = numeral a div numeral b"
  using floor_divide_of_int_eq [of "numeral a" "numeral b", where ?'a = rat] by simp

lemmas double_eval =
  nearest_double_def scale_numeral round_half_even_def Let_def floor_fraction_numeral


lemma scale_ok:
  assumes "0 < x" and "2 ^ 52 \<le> x * 2 ^ f" and "x < 2 ^ 53 * 2 ^ f"
  shows "\<exists>y e'. scale f x e = (y, e') \<and> 2 ^ 52 \<le> y \<and> y < 2 ^ 53 \<and> y * 2 powi e' = x * 2 powi e"
  using assms
proof (induction f arbitrary: x e)
  case 0
  then show ?case by simp
next
  case (Suc f)
  show ?case
  proof (cases "2 ^ 53 \<le> x")
    case True
    have one: "(1::rat) \<le> 2 ^ f" by simp
    have "2 ^ 52 \<le> x / 2" using True by simp
    also have "x / 2 \<le> x / 2 * 2 ^ f"
      using one Suc.prems(1) by (simp add: mult_le_cancel_left1)
    finally have a: "2 ^ 52 \<le> x / 2 * 2 ^ f" .
    have b: "x / 2 < 2 ^ 53 * 2 ^ f" using Suc.prems(3) by simp
    have c: "0 < x / 2" using Suc.prems(1) by simp
    from Suc.IH [OF c a b, of "e + 1"] obtain y e' where
      "scale f (x / 2) (e + 1) = (y, e')" "2 ^ 52 \<le> y" "y < 2 ^ 53"
      "y * 2 powi e' = x / 2 * 2 powi (e + 1)"
      by blast
    moreover have "x / 2 * 2 powi (e + 1) = x * 2 powi e"
      by (simp add: power_int_add_1)
    ultimately show ?thesis using True by simp
  next
    case False
    show ?thesis
    proof (cases "x < 2 ^ 52")
      case True
      have a: "2 ^ 52 \<le> 2 * x * 2 ^ f" using Suc.prems(2) by (simp add: mult.commute mult.left_commute)
      have one: "(1::rat) \<le> 2 ^ f" by simp
      have "2 * x < 2 ^ 53" using True by simp
      also have "(2::rat) ^ 53 \<le> 2 ^ 53 * 2 ^ f"
        using one by (simp add: mult_le_cancel_left1)
      finally have b: "2 * x < 2 ^ 53 * 2 ^ f" .
      have c: "0 < 2 * x" using Suc.prems(1) by simp
      from Suc.IH [OF c a b, of "e - 1"] obtain y e' where
        "scale f (2 * x) (e - 1) = (y, e')" "2 ^ 52 \<le> y" "y < 2 ^ 53"
        "y * 2 powi e' = 2 * x * 2 powi (e - 1)"
        by blast
      moreover have "2 * x * 2 powi (e - 1) = x * 2 powi e"
        using power_int_minus_mult [of "2::rat" e] by (simp add: mult.commute mult.left_commute)
      ultimately show ?thesis using True False by simp
    next
      case F2: False
      with False show ?thesis by simp
    qed
  qed
qed

lemma round_half_even_near: "\<bar>of_int (round_half_even y) - y\<bar> \<le> 1 / 2"
proof -
  have "of_int \<lfloor>y\<rfloor> \<le> y" "y < of_int \<lfloor>y\<rfloor> + 1"
    by linarith+
  then show ?thesis
    by (auto simp: round_half_even_def Let_def)
qed

lemma nearest_double_error:
  assumes "0 < x" and "2 ^ 52 \<le> x * 2 ^ 2200" and "x < 2 ^ 53 * 2 ^ 2200"
  shows "\<bar>nearest_double x - x\<bar> \<le> x / 2 ^ 53"
proof -
  from scale_ok [OF assms, of 0] obtain y e where
    sc: "scale 2200 x 0 = (y, e)" and lo: "2 ^ 52 \<le> y" and val: "y * 2 powi e = x"
    by auto
  have p: "(0::rat) < 2 powi e" by simp
  have nd: "nearest_double x = of_int (round_half_even y) * 2 powi e"
    using assms(1) sc by (simp add: nearest_double_def)
  have "nearest_double x - x = (of_int (round_half_even y) - y) * 2 powi e"
    using nd val by (simp add: left_diff_distrib)
  then have "\<bar>nearest_double x - x\<bar> = \<bar>of_int (round_half_even y) - y\<bar> * 2 powi e"
    using p by (simp add: abs_mult)
  also have "\<dots> \<le> 1 / 2 * 2 powi e"
    using round_half_even_near [of y] p by (simp add: mult_right_mono)
  also have "\<dots> \<le> (y / 2 ^ 53) * 2 powi e"
    using lo p by (simp add: mult_right_mono)
  also have "\<dots> = x / 2 ^ 53"
    using val by simp
  finally show ?thesis .
qed

lemma double_range:
  fixes x :: rat
  assumes "1 / 2 ^ 40 \<le> x" and "x \<le> 2 ^ 10"
  shows "2 ^ 52 \<le> x * 2 ^ 2200 \<and> x < 2 ^ 53 * 2 ^ 2200"
proof -
  have split: "(2::rat) ^ 2200 = 2 ^ 92 * 2 ^ 2108"
    by (simp flip: power_add)
  have big: "(1::rat) \<le> 2 ^ 2108" by simp
  have "(2::rat) ^ 52 \<le> (1 / 2 ^ 40) * 2 ^ 92"
    by simp
  also have "\<dots> \<le> x * 2 ^ 92"
    using assms(1) by (simp add: mult_right_mono)
  also have "\<dots> \<le> x * 2 ^ 92 * 2 ^ 2108"
    using big assms(1) by (simp add: mult_le_cancel_left1)
  finally have a: "2 ^ 52 \<le> x * 2 ^ 2200"
    unfolding split by (simp add: mult.assoc)
  have "x < 2 ^ 53" using assms(2) by simp
  also have "(2::rat) ^ 53 \<le> 2 ^ 53 * 2 ^ 2200"
    by (simp add: mult_le_cancel_left1)
  finally have b: "x < 2 ^ 53 * 2 ^ 2200" .
  show ?thesis using a b by simp
qed


lemma tie_gap:
  fixes X T :: rat and k n :: nat
  assumes n: "0 < n" "n < 2 ^ 32" and T: "T = 100 * of_nat k / of_nat n"
    and near: "\<bar>X - T\<bar> \<le> eps" and small: "0 \<le> eps" "2 ^ 33 * eps < 1"
  shows "\<lfloor>X + 1 / 2\<rfloor> = round T \<or> (\<lfloor>X + 1 / 2\<rfloor> = round T - 1 \<and> frac T = 1 / 2)"
proof -
  define r where "r = round T"
  define N :: rat where "N = 2 * of_nat n"
  have Npos: "0 < N" using n(1) by (simp add: N_def)
  have "n \<le> 2 ^ 32" using n(2) by simp
  then have "(of_nat n :: rat) \<le> of_nat (2 ^ 32)" by (simp only: of_nat_le_iff)
  then have Nle: "N \<le> 2 ^ 33" by (simp add: N_def)
  have eps: "N * eps < 1"
  proof -
    have "N * eps \<le> 2 ^ 33 * eps"
      using Nle small(1) by (rule mult_right_mono)
    also have "\<dots> < 1" by (rule small(2))
    finally show ?thesis .
  qed
  have eps1: "eps \<le> 1"
  proof -
    have "1 * eps \<le> 2 ^ 33 * eps"
      using small(1) by (intro mult_right_mono) simp_all
    with small(2) show ?thesis by simp
  qed
  have r_lo: "of_int r \<le> T + 1 / 2" and r_hi: "T + 1 / 2 < of_int r + 1"
    unfolding r_def round_def by linarith+
  have NT: "N * (T + 1 / 2) = of_int (200 * int k + int n)"
    using n(1) by (simp add: N_def T field_simps)
  have up_int: "200 * int k + int n < 2 * int n * (r + 1)"
  proof -
    have "N * (T + 1 / 2) < N * (of_int r + 1)"
      using r_hi Npos by (simp add: mult_strict_left_mono)
    then have "(of_int (200 * int k + int n) :: rat) < of_int (2 * int n * (r + 1))"
      unfolding NT by (simp add: N_def)
    then show ?thesis by (simp only: of_int_less_iff)
  qed
  then have "200 * int k + int n + 1 \<le> 2 * int n * (r + 1)" by simp
  then have "(of_int (200 * int k + int n + 1) :: rat) \<le> of_int (2 * int n * (r + 1))"
    by (simp only: of_int_le_iff)
  then have up_rat: "N * (T + 1 / 2) + 1 \<le> N * (of_int r + 1)"
    unfolding NT by (simp add: N_def)
  have Xup: "X \<le> T + eps" and Xlo: "T - eps \<le> X"
    using near by linarith+
  have "N * (X + 1 / 2) \<le> N * (T + 1 / 2 + eps)"
    using Xup Npos by (intro mult_left_mono) simp_all
  also have "\<dots> = N * (T + 1 / 2) + N * eps"
    by (simp only: distrib_left)
  also have "\<dots> < N * (T + 1 / 2) + 1" using eps by simp
  also have "\<dots> \<le> N * (of_int r + 1)" by (rule up_rat)
  finally have "X + 1 / 2 < of_int r + 1"
    using Npos by (simp only: mult_less_cancel_left_pos)
  then have "X + 1 / 2 < of_int (r + 1)" by simp
  then have "\<lfloor>X + 1 / 2\<rfloor> < r + 1" by (simp only: floor_less_iff)
  then have fl_up: "\<lfloor>X + 1 / 2\<rfloor> \<le> r" by simp
  have "of_int (r - 1) \<le> X + 1 / 2"
    using r_lo Xlo eps1 by simp
  then have fl_lo: "r - 1 \<le> \<lfloor>X + 1 / 2\<rfloor>" by (simp only: le_floor_iff)
  show ?thesis
  proof (cases "of_int r = T + 1 / 2")
    case True
    then have Teq: "T = of_int (r - 1) + 1 / 2" by simp
    have "\<lfloor>T\<rfloor> = r - 1"
      by (rule floor_unique) (simp_all add: Teq)
    then have "frac T = 1 / 2"
      unfolding frac_def using Teq by simp
    with fl_up fl_lo show ?thesis unfolding r_def by linarith
  next
    case False
    with r_lo have "of_int r < T + 1 / 2" by simp
    then have "N * of_int r < N * (T + 1 / 2)"
      using Npos by (simp add: mult_strict_left_mono)
    then have "(of_int (2 * int n * r) :: rat) < of_int (200 * int k + int n)"
      unfolding NT by (simp add: N_def)
    then have "2 * int n * r < 200 * int k + int n" by (simp only: of_int_less_iff)
    then have "2 * int n * r + 1 \<le> 200 * int k + int n" by simp
    then have "(of_int (2 * int n * r + 1) :: rat) \<le> of_int (200 * int k + int n)"
      by (simp only: of_int_le_iff)
    then have lo_rat: "N * of_int r + 1 \<le> N * (T + 1 / 2)"
      unfolding NT by (simp add: N_def)
    have "N * of_int r \<le> N * (T + 1 / 2) - N * eps"
      using lo_rat eps by simp
    also have "\<dots> = N * (T + 1 / 2 - eps)"
      by (simp only: right_diff_distrib)
    also have "\<dots> \<le> N * (X + 1 / 2)"
      using Xlo Npos by (intro mult_left_mono) simp_all
    finally have "of_int r \<le> X + 1 / 2"
      using Npos by (simp only: mult_le_cancel_left_pos)
    then have "r \<le> \<lfloor>X + 1 / 2\<rfloor>" by (simp only: le_floor_iff)
    with fl_up show ?thesis unfolding r_def by simp
  qed
qed


lemma double_progress_near:
  fixes k n :: nat
  assumes k: "0 < k" "k \<le> n" and n: "n < 2 ^ 32"
  defines "X \<equiv> js_mul (js_div (of_nat k) (of_nat n)) 100"
  shows "\<bar>X - 100 * of_nat k / of_nat n\<bar> \<le> 300 / 2 ^ 53" and "0 \<le> X"
proof -
  define u :: rat where "u = 1 / 2 ^ 53"
  define q :: rat where "q = of_nat k / of_nat n"
  define q' where "q' = nearest_double q"
  have u: "0 < u" "u \<le> 1 / 2" by (simp_all add: u_def)
  have npos: "0 < n" using k by simp
  have "n \<le> 2 ^ 32" using n by simp
  then have "(of_nat n :: rat) \<le> of_nat (2 ^ 32)" by (simp only: of_nat_le_iff)
  then have nle: "(of_nat n :: rat) \<le> 2 ^ 32" by simp
  have "(1::rat) \<le> of_nat k" using k(1) by simp
  then have "1 / of_nat n \<le> q"
    unfolding q_def using npos by (simp add: divide_right_mono)
  moreover have "1 / 2 ^ 32 \<le> 1 / (of_nat n :: rat)"
    using nle npos by (simp add: frac_le)
  ultimately have q_lo: "1 / 2 ^ 32 \<le> q" by simp
  have q_hi: "q \<le> 1"
    unfolding q_def using k(2) npos by (simp add: divide_le_eq)
  have q_pos: "0 < q" using q_lo by (rule less_le_trans [rotated]) simp
  have r1: "2 ^ 52 \<le> q * 2 ^ 2200 \<and> q < 2 ^ 53 * 2 ^ 2200"
  proof (rule double_range)
    show "1 / 2 ^ 40 \<le> q" using q_lo by (rule order_trans [rotated]) simp
    show "q \<le> 2 ^ 10" using q_hi by simp
  qed
  have "\<bar>q' - q\<bar> \<le> q / 2 ^ 53"
    unfolding q'_def using q_pos r1 by (intro nearest_double_error) simp_all
  then have e1: "\<bar>q' - q\<bar> \<le> q * u" by (simp add: u_def)
  have qu: "q * u \<le> u" using q_hi u(1) by (simp add: mult_le_cancel_right1)
  have qu2: "q * u \<le> q / 2" using u(2) q_pos by simp
  have q'_lo: "q / 2 \<le> q'" using e1 qu2 by linarith
  have q'_hi: "q' \<le> 2" using e1 qu q_hi u(2) by linarith
  define P where "P = q' * 100"
  have P_lo: "1 / 2 ^ 40 \<le> P"
  proof -
    have "(1::rat) / 2 ^ 40 \<le> (1 / 2 ^ 32) / 2 * 100" by simp
    also have "\<dots> \<le> q / 2 * 100" using q_lo by simp
    also have "\<dots> \<le> P" unfolding P_def using q'_lo by simp
    finally show ?thesis .
  qed
  have P_hi: "P \<le> 200" unfolding P_def using q'_hi by simp
  have P_pos: "0 < P" using P_lo by (rule less_le_trans [rotated]) simp
  have r2: "2 ^ 52 \<le> P * 2 ^ 2200 \<and> P < 2 ^ 53 * 2 ^ 2200"
  proof (rule double_range)
    show "1 / 2 ^ 40 \<le> P" by (rule P_lo)
    show "P \<le> 2 ^ 10" using P_hi by simp
  qed
  have X: "X = nearest_double P"
    by (simp add: X_def js_mul_def js_div_def P_def q'_def q_def)
  have "\<bar>X - P\<bar> \<le> P / 2 ^ 53"
    unfolding X using P_pos r2 by (intro nearest_double_error) simp_all
  then have e2: "\<bar>X - P\<bar> \<le> P * u" by (simp add: u_def)
  have Pu: "P * u \<le> 200 * u" using P_hi u(1) by simp
  have Pu2: "P * u \<le> P" using u P_pos by (simp add: mult_le_cancel_left2)
  have T: "100 * of_nat k / of_nat n = 100 * q" by (simp add: q_def)
  have d: "\<bar>P - 100 * q\<bar> \<le> 100 * u"
  proof -
    have "P - 100 * q = 100 * (q' - q)" by (simp add: P_def right_diff_distrib)
    then have "\<bar>P - 100 * q\<bar> = \<bar>100 * (q' - q)\<bar>" by (simp only:)
    also have "\<dots> = 100 * \<bar>q' - q\<bar>" by (subst abs_mult) simp
    also have "\<dots> \<le> 100 * u" using e1 qu by simp
    finally show ?thesis .
  qed
  have "\<bar>X - 100 * q\<bar> \<le> 300 * u" using e2 Pu d by linarith
  then show "\<bar>X - 100 * of_nat k / of_nat n\<bar> \<le> 300 / 2 ^ 53"
    unfolding T by (simp add: u_def)
  show "0 \<le> X" using e2 Pu2 P_pos by linarith
qed

lemma progress_rounding:
  fixes k n :: nat
  assumes "0 < n" "k \<le> n" "n < 2 ^ 32"
  defines "R \<equiv> Math_round (js_mul (js_div (of_nat k) (of_nat n)) 100)"
    and "T \<equiv> 100 * of_nat k / of_nat n :: rat"
  shows "0 \<le> R \<and> R \<le> 100 \<and> (R = round T \<or> (R = round T - 1 \<and> frac T = 1 / 2))"
proof (cases "k = 0")
  case True
  then have "R = 0"
    by (simp add: R_def js_div_def js_mul_def nearest_double_def Math_round_def floor_eq_iff)
  moreover have "round T = 0" using True by (simp add: T_def)
  ultimately show ?thesis by simp
next
  case False
  then have k: "0 < k" by simp
  define X where "X = js_mul (js_div (of_nat k) (of_nat n)) 100"
  have near: "\<bar>X - T\<bar> \<le> 300 / 2 ^ 53" and Xpos: "0 \<le> X"
    unfolding X_def T_def using double_progress_near [OF k assms(2,3)] by simp_all
  have R: "R = \<lfloor>X + 1 / 2\<rfloor>" by (simp add: R_def X_def Math_round_def)
  have alt: "R = round T \<or> (R = round T - 1 \<and> frac T = 1 / 2)"
    unfolding R
  proof (rule tie_gap [OF assms(1,3) _ near])
    show "T = 100 * of_nat k / of_nat n" by (simp add: T_def)
    show "(0::rat) \<le> 300 / 2 ^ 53" by simp
    show "(2::rat) ^ 33 * (300 / 2 ^ 53) < 1" by simp
  qed
  have "0 \<le> X + 1 / 2" using Xpos by simp
  then have lo: "0 \<le> R" unfolding R by (simp only: zero_le_floor)
  have "T \<le> 100"
    unfolding T_def using assms(1,2) by (simp add: divide_le_eq)
  then have "T + 1 / 2 < of_int 101" by simp
  then have "round T < 101" unfolding round_def by (simp only: floor_less_iff)
  with alt have hi: "R \<le> 100" by linarith
  show ?thesis using lo hi alt by simp
qed

subsection \<open>Module progress\<close>

text \<open>
  Claim C9, as the code has it. \<open>calculateModuleProgress\<close> is total and bounded: a module
  without a \<open>lessons\<close> field or with an empty lesson list gives 0, and a module with
  \<open>n \<ge> 1\<close> lessons (an array has fewer than \<open>2^32\<close> elements) of which \<open>k\<close> have
  \<open>is_completed\<close> true gives an integer between 0 and 100. That integer is
  \<open>round (100 * k / n)\<close>, except that it may be one less when \<open>100 * k / n\<close> lies exactly half
  way between two integers, because the quotient and the product are rounded to doubles
  before \<open>Math.round\<close> sees them.
\<close>

theorem C9_calculateModuleProgress_bounded:
  "(lessons m = None \<or> lessons m = Some [] \<longrightarrow> calculateModuleProgress m = 0) \<and>
   (\<forall>ls. lessons m = Some ls \<and> ls \<noteq> [] \<and> length ls < 2 ^ 32 \<longrightarrow>
      0 \<le> calculateModuleProgress m \<and> calculateModuleProgress m \<le> 100 \<and>
      (calculateModuleProgress m =
         round (100 * of_nat (length (filter (\<lambda>l. is_completed l = Some True) ls))
                  / of_nat (length ls) :: rat) \<or>
       calculateModuleProgress m =
         round (100 * of_nat (length (filter (\<lambda>l. is_completed l = Some True) ls))
                  / of_nat (length ls) :: rat) - 1 \<and>
       frac (100 * of_nat (length (filter (\<lambda>l. is_completed l = Some True) ls))
               / of_nat (length ls) :: rat) = 1 / 2))"
proof -
  have empty: "lessons m = None \<or> lessons m = Some [] \<longrightarrow> calculateModuleProgress m = 0"
    by (auto simp: calculateModuleProgress_def)
  have full: "0 \<le> calculateModuleProgress m \<and> calculateModuleProgress m \<le> 100 \<and>
      (calculateModuleProgress m =
         round (100 * of_nat (length (filter (\<lambda>l. is_completed l = Some True) ls))
                  / of_nat (length ls) :: rat) \<or>
       calculateModuleProgress m =
         round (100 * of_nat (length (filter (\<lambda>l. is_completed l = Some True) ls))
                  / of_nat (length ls) :: rat) - 1 \<and>
       frac (100 * of_nat (length (filter (\<lambda>l. is_completed l = Some True) ls))
               / of_nat (length ls) :: rat) = 1 / 2)"
    if ls: "lessons m = Some ls" "ls \<noteq> []" "length ls < 2 ^ 32" for ls
  proof -
    define k where "k = length (filter (\<lambda>l. is_completed l = Some True) ls)"
    define n where "n = length ls"
    have n: "0 < n" using ls(2) by (simp add: n_def)
    have kn: "k \<le> n" by (simp add: k_def n_def)
    have n32: "n < 2 ^ 32" using ls(3) by (simp add: n_def)
    have val: "calculateModuleProgress m = Math_round (js_mul (js_div (of_nat k) (of_nat n)) 100)"
      using ls(1,2) by (simp add: calculateModuleProgress_def js_bool_def k_def n_def)
    show ?thesis
      using progress_rounding [OF n kn n32] unfolding val k_def n_def by simp
  qed
  show ?thesis using empty full by blast
qed

text \<open>A module of forty lessons with twenty-three completed: \<open>(23 / 40) * 100\<close> is the double
  just below 57.5, and the result is 57 where \<open>round (100 * 23 / 40)\<close> is 58.\<close>

theorem C9_counterexample:
  "lessons forty_lesson_module = Some (replicate 23 video_lesson @ replicate 17 reading_lesson) \<and>
   length (replicate 23 video_lesson @ replicate 17 reading_lesson) = 40 \<and>
   length (filter (\<lambda>l. is_completed l = Some True)
     (replicate 23 video_lesson @ replicate 17 reading_lesson)) = 23 \<and>
   calculateModuleProgress forty_lesson_module = 57 \<and>
   round (100 * 23 / 40 :: rat) = 58"
proof -
  have q: "js_div 23 40 = 2589569785738035 / 4503599627370496"
    by (simp add: js_div_def double_eval)
  have p: "js_mul (2589569785738035 / 4503599627370496) 100 = 8092405580431359 / 140737488355328"
    by (simp add: js_mul_def double_eval)
  have r: "Math_round (8092405580431359 / 140737488355328) = 57"
    by (simp add: Math_round_def floor_fraction_numeral)
  have f: "length (filter (\<lambda>l. is_completed l = Some True)
     (replicate 23 video_lesson @ replicate 17 reading_lesson)) = 23"
    by (simp add: video_lesson_def reading_lesson_def)
  have v: "calculateModuleProgress forty_lesson_module = 57"
    by (simp add: calculateModuleProgress_def forty_lesson_module_def js_bool_def
        video_lesson_def reading_lesson_def q p r)
  have e: "round (100 * 23 / 40 :: rat) = 58"
    by (simp add: round_def floor_fraction_numeral)
  show ?thesis using f v e by (simp add: forty_lesson_module_def)
qed

text \<open>The module of the specification's example, one lesson of two completed, is at 50.\<close>

theorem C9_witness:
  "lessons two_lesson_module = Some [video_lesson, reading_lesson] \<and>
   [video_lesson, reading_lesson] \<noteq> [] \<and>
   length [video_lesson, reading_lesson] < 2 ^ 32 \<and>
   calculateModuleProgress two_lesson_module = 50 \<and>
   calculateModuleProgress (two_lesson_module\<lparr>lessons := None\<rparr>) = 0"
proof -
  have l: "lessons two_lesson_module = Some [video_lesson, reading_lesson]"
    by (simp add: two_lesson_module_def)
  have f: "filter (\<lambda>l. is_completed l = Some True) [video_lesson, reading_lesson] = [video_lesson]"
    by (simp add: video_lesson_def reading_lesson_def)
  have t: "(100 * of_nat (length [video_lesson]) / of_nat (length [video_lesson, reading_lesson]) :: rat) = 50"
    by simp
  have r: "round (50 :: rat) = 50" "frac (50 :: rat) \<noteq> 1 / 2"
    by (simp_all add: round_def frac_def floor_eq_iff)
  have h: "lessons two_lesson_module = Some [video_lesson, reading_lesson] \<and>
      [video_lesson, reading_lesson] \<noteq> [] \<and> length [video_lesson, reading_lesson] < 2 ^ 32"
    using l by simp
  from C9_calculateModuleProgress_bounded [of two_lesson_module]
  have "\<forall>ls. lessons two_lesson_module = Some ls \<and> ls \<noteq> [] \<and> length ls < 2 ^ 32 \<longrightarrow>
      (calculateModuleProgress two_lesson_module =
         round (100 * of_nat (length (filter (\<lambda>l. is_completed l = Some True) ls))
                  / of_nat (length ls) :: rat) \<or>
       frac (100 * of_nat (length (filter (\<lambda>l. is_completed l = Some True) ls))
               / of_nat (length ls) :: rat) = 1 / 2)"
    by blast
  with h have "calculateModuleProgress two_lesson_module =
      round (100 * of_nat (length (filter (\<lambda>l. is_completed l = Some True)
        [video_lesson, reading_lesson])) / of_nat (length [video_lesson, reading_lesson]) :: rat) \<or>
     frac (100 * of_nat (length (filter (\<lambda>l. is_completed l = Some True)
        [video_lesson, reading_lesson])) / of_nat (length [video_lesson, reading_lesson]) :: rat) = 1 / 2"
    by blast
  then have v: "calculateModuleProgress two_lesson_module = 50"
    unfolding f t using r by simp
  have "lessons (two_lesson_module\<lparr>lessons := None\<rparr>) = None"
    by simp
  with C9_calculateModuleProgress_bounded [of "two_lesson_module\<lparr>lessons := None\<rparr>"]
  have z: "calculateModuleProgress (two_lesson_module\<lparr>lessons := None\<rparr>) = 0"
    by blast
  show ?thesis using l v z by simp
qed

subsection \<open>The frame of the progress update\<close>

text \<open>
  Claim C10. \<open>handleCourseProgressUpdate\<close> changes only the courses whose \<open>courseId\<close> is the
  given one: the list keeps its length and order, every other course is left as it was,
  and in a matching course only \<open>progress\<close>, \<open>status\<close>, \<open>started_at\<close> and \<open>completed_at\<close>
  change; the title, modules, resources, instructors, thumbnail, description and every
  other field, named in the model or not, stay.
\<close>

theorem C10_handleCourseProgressUpdate_frame:
  "length (handleCourseProgressUpdate cid p s sa ca prev) = length prev \<and>
   (\<forall>i < length prev.
      (courseId (prev ! i) \<noteq> cid \<longrightarrow>
         handleCourseProgressUpdate cid p s sa ca prev ! i = prev ! i) \<and>
      (courseId (prev ! i) = cid \<longrightarrow>
         handleCourseProgressUpdate cid p s sa ca prev ! i =
           (prev ! i)\<lparr>progress := p, status := s, started_at := sa, completed_at := ca\<rparr> \<and>
         courseId (handleCourseProgressUpdate cid p s sa ca prev ! i) = courseId (prev ! i) \<and>
         title (handleCourseProgressUpdate cid p s sa ca prev ! i) = title (prev ! i) \<and>
         thumbnail (handleCourseProgressUpdate cid p s sa ca prev ! i) = thumbnail (prev ! i) \<and>
         description (handleCourseProgressUpdate cid p s sa ca prev ! i) = description (prev ! i) \<and>
         resources (handleCourseProgressUpdate cid p s sa ca prev ! i) = resources (prev ! i) \<and>
         modules (handleCourseProgressUpdate cid p s sa ca prev ! i) = modules (prev ! i) \<and>
         instructors (handleCourseProgressUpdate cid p s sa ca prev ! i) = instructors (prev ! i) \<and>
         enrollment_id (handleCourseProgressUpdate cid p s sa ca prev ! i) = enrollment_id (prev ! i) \<and>
         course (handleCourseProgressUpdate cid p s sa ca prev ! i) = course (prev ! i) \<and>
         user (handleCourseProgressUpdate cid p s sa ca prev ! i) = user (prev ! i) \<and>
         user_id (handleCourseProgressUpdate cid p s sa ca prev ! i) = user_id (prev ! i) \<and>
         bookmarked (handleCourseProgressUpdate cid p s sa ca prev ! i) = bookmarked (prev ! i) \<and>
         enrolled_at (handleCourseProgressUpdate cid p s sa ca prev ! i) = enrolled_at (prev ! i) \<and>
         enrolled_course.more (handleCourseProgressUpdate cid p s sa ca prev ! i) =
           enrolled_course.more (prev ! i)))"
  by (simp add: handleCourseProgressUpdate_def)

theorem C10_witness:
  "(1::nat) < length [algebra_course, geometry_course] \<and>
   courseId ([algebra_course, geometry_course] ! 0) = 11 \<and>
   courseId ([algebra_course, geometry_course] ! 1) \<noteq> 11 \<and>
   handleCourseProgressUpdate 11 50 InProgress (Some noon) None [algebra_course, geometry_course] =
     [algebra_course\<lparr>progress := 50, status := InProgress, started_at := Some noon,
        completed_at := None\<rparr>, geometry_course]"
proof -
  let ?prev = "[algebra_course, geometry_course]"
  let ?new = "handleCourseProgressUpdate 11 50 InProgress (Some noon) None ?prev"
  note th = C10_handleCourseProgressUpdate_frame [of 11 50 InProgress "Some noon" None ?prev]
  have c0: "courseId (?prev ! 0) = 11"
    by (simp add: algebra_course_def)
  have c1: "courseId (?prev ! 1) \<noteq> 11"
    by (simp add: geometry_course_def)
  from th have len: "length ?new = 2"
    by simp
  from th c0 have n0: "?new ! 0 = algebra_course\<lparr>progress := 50, status := InProgress,
      started_at := Some noon, completed_at := None\<rparr>"
    by simp
  from th c1 have n1: "?new ! 1 = geometry_course"
    by simp
  have "?new = [?new ! 0, ?new ! 1]"
    using len by (cases ?new; cases "tl ?new") auto
  with n0 n1 c0 c1 show ?thesis
    by simp
qed

subsection \<open>The derived status of the list transform\<close>

lemma transformCourse_Some:
  assumes "transformCourse base c = Inr (Some c')"
  shows "status c' = derivedStatus c \<and> completed_at c' = completed_at c \<and> progress c' = progress c"
  using assms
  by (auto simp: transformCourse_def enrollment.defs enrolled_course.defs split: option.splits)

lemma map_throwing_Inr:
  "map_throwing f xs = Inr ys \<Longrightarrow> y \<in> set ys \<Longrightarrow> \<exists>x \<in> set xs. f x = Inr y"
proof (induction xs arbitrary: ys)
  case Nil
  then show ?case by simp
next
  case (Cons x xs)
  then show ?case
    by (auto split: sum.splits)
qed

lemma transformedCourses_origin:
  assumes "transformedCourses base cs = Inr out" and "c' \<in> set out"
  shows "\<exists>c \<in> set cs. transformCourse base c = Inr (Some c')"
proof -
  from assms(1) obtain ys where ys: "map_throwing (transformCourse base) cs = Inr ys"
    and out: "out = concat (map (\<lambda>c. case c of None \<Rightarrow> [] | Some x \<Rightarrow> [x]) ys)"
    by (auto simp: transformedCourses_def split: sum.splits)
  from assms(2) out have "Some c' \<in> set ys"
    by (auto split: option.splits)
  with ys show ?thesis
    using map_throwing_Inr by fastforce
qed

text \<open>
  Claim C6. Every course record that the list transform produces has the derived status:
  \<open>completed\<close> if its completion timestamp is set, else \<open>in_progress\<close> if its progress is
  above 0, else \<open>not_started\<close>. In particular a record whose completion timestamp is set is
  \<open>completed\<close> whatever its progress is.
\<close>

theorem C6_derived_status:
  assumes "transformedCourses base cs = Inr out"
  shows "\<forall>c \<in> set out.
           status c = (if truthy (completed_at c) then Completed
                       else if progress c > 0 then InProgress
                       else NotStarted) \<and>
           (truthy (completed_at c) \<longrightarrow> status c = Completed)"
proof
  fix c' assume "c' \<in> set out"
  with assms obtain c where "transformCourse base c = Inr (Some c')"
    using transformedCourses_origin by blast
  then have "status c' = derivedStatus c" "completed_at c' = completed_at c"
    "progress c' = progress c"
    using transformCourse_Some by blast+
  then show "status c' = (if truthy (completed_at c') then Completed
                       else if progress c' > 0 then InProgress
                       else NotStarted) \<and>
           (truthy (completed_at c') \<longrightarrow> status c' = Completed)"
    by (simp add: derivedStatus_def)
qed

text \<open>Three enrollments, the second without its \<open>course\<close> object: the transform drops the
  second, and the third, at 40 percent with a completion timestamp, is \<open>completed\<close>.\<close>

theorem C6_witness:
  "(\<exists>a b. transformedCourses ''https://api.example.org''
       [algebra_enrollment, finished_enrollment\<lparr>course := None\<rparr>, finished_enrollment] = Inr [a, b] \<and>
     status a = NotStarted \<and> progress b = 40 \<and> status b = Completed)"
proof -
  let ?cs = "[algebra_enrollment, finished_enrollment\<lparr>course := None\<rparr>, finished_enrollment]"
  obtain a b where ab: "transformedCourses ''https://api.example.org'' ?cs = Inr [a, b]"
    and ca: "completed_at a = None" and pa: "progress a = 0"
    and cb: "completed_at b = Some ''2024-02-01T10:00:00.000Z''" and pb: "progress b = 40"
    by (simp add: transformedCourses_def transformCourse_def algebra_enrollment_def
        finished_enrollment_def algebra_info_def enrollment.defs enrolled_course.defs)
  from C6_derived_status [OF ab] ca pa have "status a = NotStarted"
    by (simp add: truthy_def)
  moreover from C6_derived_status [OF ab] cb have "status b = Completed"
    by (simp add: truthy_def)
  ultimately show ?thesis using ab pb by blast
qed

subsection \<open>The media player\<close>

text \<open>
  Claim C8, as the code has it. The playback-rate selection of the native video offers
  exactly the rates 0.5, 0.75, 1, 1.25, 1.5 and 2, each once, and stores the selected one.
\<close>

theorem C8_playback_rates:
  "set playbackRates = {1 / 2, 3 / 4, 1, 5 / 4, 3 / 2, 2} \<and> distinct playbackRates \<and>
   playbackRate (handlePlaybackRateChange rate p) = rate"
  by (simp add: playbackRates_def handlePlaybackRateChange_def)

text \<open>The set that the specification lists has 1.2 in it, which the player does not
  offer.\<close>

theorem C8_counterexample:
  "set playbackRates \<noteq> {1 / 2, 3 / 4, 1, 5 / 4, 6 / 5, 3 / 2, 2}"
proof
  assume "set playbackRates = {1 / 2, 3 / 4, 1, 5 / 4, 6 / 5, 3 / 2, 2}"
  then have "(6 / 5 :: rat) \<in> set playbackRates" by simp
  then show False by (simp add: playbackRates_def)
qed

text \<open>
  Claim C3 says that the native video completes once when the current time reaches
  \<open>duration - 1\<close> and that this completion invokes the \<open>onEnded\<close> callback. On a video of ten
  seconds that is not yet completed, the time update at second 9 sets \<open>completed\<close> and
  leaves the callback uncalled; the handler of the \<open>ended\<close> event is the one that calls it.
\<close>

theorem C3_timeupdate_completes_without_callback:
  "\<not> completed ten_second_video \<and> duration ten_second_video = 10 \<and>
   onEnded_provided ten_second_video \<and>
   completed (video_timeupdate 9 ten_second_video) \<and>
   onEnded_calls (video_timeupdate 9 ten_second_video) = 0 \<and>
   onEnded_calls (video_onEnded (video_timeupdate 9 ten_second_video)) = 1"
  by (simp add: ten_second_video_def initial_player_def handleLoadedMetadata_def
      video_timeupdate_def handleTimeUpdate_def video_onEnded_def Let_def)

subsection \<open>Completing a lesson\<close>

lemmas demo_defs =
  counting_api_def offline_api_def flaky_api_def world_at_def started_world_def
  started_algebra_def algebra_course_def geometry_course_def reading_lesson_def noon_def
  userId_def coursesAPI_in_scope_def

text \<open>
  Claim C2 says that a successful run with backend percentage \<open>p\<close> sets the progress of the
  local course record to \<open>p\<close>, its status and completion timestamp at \<open>p = 100\<close>, its status
  and start timestamp at \<open>p > 0\<close> when it has no start timestamp, and keeps the status and
  both timestamps of the record otherwise. In the module as it is, \<open>coursesAPI\<close> is unbound:
  completing a lesson of the Algebra course sends nothing, logs the error and leaves the
  record as it was. With the client bound the handler reads the previous values from the
  course object of the dialog, not from the record: after a first completion the record has
  its start timestamp, and a second completion replaces it at 50 percent and erases it at
  100 percent.
\<close>

theorem C2_completion_does_not_reach_the_record:
  "filteredCourses
     (handleLessonComplete coursesAPI_in_scope noon algebra_course reading_lesson (world_at 0)) =
     filteredCourses (world_at 0) \<and>
   courseProgress
     (handleLessonComplete coursesAPI_in_scope noon algebra_course reading_lesson (world_at 0)) =
     courseProgress (world_at 0) \<and>
   traffic
     (handleLessonComplete coursesAPI_in_scope noon algebra_course reading_lesson (world_at 0)) = [] \<and>
   console
     (handleLessonComplete coursesAPI_in_scope noon algebra_course reading_lesson (world_at 0)) =
     [''Error completing lesson or fetching progress:''] \<and>
   courseId (filteredCourses (started_world 0) ! 0) = courseId algebra_course \<and>
   started_at (filteredCourses (started_world 0) ! 0) = Some ''2024-02-10T08:30:00.000Z'' \<and>
   started_at (filteredCourses
     (handleLessonComplete (Some counting_api) noon algebra_course reading_lesson (started_world 0)) ! 0) =
     Some noon \<and>
   progress (filteredCourses
     (handleLessonComplete (Some counting_api) noon algebra_course reading_lesson (started_world 1)) ! 0) =
     100 \<and>
   started_at (filteredCourses
     (handleLessonComplete (Some counting_api) noon algebra_course reading_lesson (started_world 1)) ! 0) =
     None"
  by (simp add: handleLessonComplete_def console_error_def progressOutcome_def
      handleCourseProgressUpdate_def truthy_def Let_def demo_defs)

lemma run_traffic_append: "traffic w' = traffic w @ es \<Longrightarrow> run_traffic w w' = es"
  by (simp add: run_traffic_def)

lemma handleLessonComplete_traffic:
  "traffic (handleLessonComplete binding now c l w) = traffic w @
     (case binding of
        None \<Rightarrow> []
      | Some api \<Rightarrow>
          (case completeLesson api (userId c) (lesson_id l) (backend w) of
             (Inl e, b1) \<Rightarrow> [CompleteLessonRequest (userId c) (lesson_id l), CompleteLessonRejected]
           | (Inr u, b1) \<Rightarrow>
               [CompleteLessonRequest (userId c) (lesson_id l), CompleteLessonResolved,
                GetCourseProgressRequest (userId c) (courseId c),
                (case fst (getCourseProgress api (userId c) (courseId c) b1) of
                   Inl e \<Rightarrow> GetCourseProgressRejected
                 | Inr p \<Rightarrow> GetCourseProgressResolved p)]))"
  by (auto simp: handleLessonComplete_def Let_def console_error_def
      split: option.splits prod.splits sum.splits)

lemma handleLessonComplete_run_traffic:
  "run_traffic w (handleLessonComplete binding now c l w) =
     (case binding of
        None \<Rightarrow> []
      | Some api \<Rightarrow>
          (case completeLesson api (userId c) (lesson_id l) (backend w) of
             (Inl e, b1) \<Rightarrow> [CompleteLessonRequest (userId c) (lesson_id l), CompleteLessonRejected]
           | (Inr u, b1) \<Rightarrow>
               [CompleteLessonRequest (userId c) (lesson_id l), CompleteLessonResolved,
                GetCourseProgressRequest (userId c) (courseId c),
                (case fst (getCourseProgress api (userId c) (courseId c) b1) of
                   Inl e \<Rightarrow> GetCourseProgressRejected
                 | Inr p \<Rightarrow> GetCourseProgressResolved p)]))"
  by (rule run_traffic_append) (rule handleLessonComplete_traffic)

lemma handleLessonComplete_backend:
  "backend (handleLessonComplete binding now c l w) = backend_after binding c l (backend w)"
  by (auto simp: handleLessonComplete_def backend_after_def Let_def console_error_def
      split: option.splits prod.splits sum.splits)

text \<open>
  Claim C5. If a run fails, because the mark-lesson-complete call or the get-course-progress
  call fails or because the client is unbound, the error is caught and logged and no local
  state changes: the list of courses, with the progress, status and both timestamps of
  every course, and the course progress of the dialog are what they were; one line goes to
  the console; each request that has left has left once, so nothing is retried.
\<close>

theorem C5_failure_changes_no_local_state:
  assumes "run_fails binding c l w"
  shows "filteredCourses (handleLessonComplete binding now c l w) = filteredCourses w \<and>
     courseProgress (handleLessonComplete binding now c l w) = courseProgress w \<and>
     console (handleLessonComplete binding now c l w) =
       console w @ [''Error completing lesson or fetching progress:''] \<and>
     filter is_request (run_traffic w (handleLessonComplete binding now c l w)) =
       (if binding = None then []
        else if completion_resolves binding c l w
          then [CompleteLessonRequest (userId c) (lesson_id l),
                GetCourseProgressRequest (userId c) (courseId c)]
          else [CompleteLessonRequest (userId c) (lesson_id l)])"
proof -
  have state: "filteredCourses (handleLessonComplete binding now c l w) = filteredCourses w \<and>
     courseProgress (handleLessonComplete binding now c l w) = courseProgress w \<and>
     console (handleLessonComplete binding now c l w) =
       console w @ [''Error completing lesson or fetching progress:'']"
    using assms
    by (auto simp: run_fails_def progress_fetch_resolves_def handleLessonComplete_def
        Let_def console_error_def split: option.splits prod.splits sum.splits)
  have reqs: "filter is_request (run_traffic w (handleLessonComplete binding now c l w)) =
       (if binding = None then []
        else if completion_resolves binding c l w
          then [CompleteLessonRequest (userId c) (lesson_id l),
                GetCourseProgressRequest (userId c) (courseId c)]
          else [CompleteLessonRequest (userId c) (lesson_id l)])"
    unfolding handleLessonComplete_run_traffic
    by (auto simp: completion_resolves_def split: option.splits prod.splits sum.splits)
  show ?thesis using state reqs by simp
qed

text \<open>The run of the module as it is, where the client is unbound and nothing leaves, and a
  run with a client that accepts the completion call and rejects the progress fetch.\<close>

theorem C5_witness:
  "run_fails coursesAPI_in_scope algebra_course reading_lesson (world_at 0) \<and>
   filteredCourses
     (handleLessonComplete coursesAPI_in_scope noon algebra_course reading_lesson (world_at 0)) =
     [algebra_course, geometry_course] \<and>
   courseProgress
     (handleLessonComplete coursesAPI_in_scope noon algebra_course reading_lesson (world_at 0)) = 0 \<and>
   console
     (handleLessonComplete coursesAPI_in_scope noon algebra_course reading_lesson (world_at 0)) =
     [''Error completing lesson or fetching progress:''] \<and>
   filter is_request
     (run_traffic (world_at 0)
        (handleLessonComplete coursesAPI_in_scope noon algebra_course reading_lesson (world_at 0))) = [] \<and>
   run_fails (Some flaky_api) algebra_course reading_lesson (world_at 0) \<and>
   filteredCourses
     (handleLessonComplete (Some flaky_api) noon algebra_course reading_lesson (world_at 0)) =
     [algebra_course, geometry_course] \<and>
   filter is_request
     (run_traffic (world_at 0)
        (handleLessonComplete (Some flaky_api) noon algebra_course reading_lesson (world_at 0))) =
     [CompleteLessonRequest (Some 42) 2, GetCourseProgressRequest (Some 42) 11]"
proof -
  have f1: "run_fails (coursesAPI_in_scope :: nat coursesAPI option) algebra_course reading_lesson (world_at 0)"
    by (simp add: run_fails_def progress_fetch_resolves_def coursesAPI_in_scope_def)
  have f2: "run_fails (Some flaky_api) algebra_course reading_lesson (world_at 0)"
    by (simp add: run_fails_def progress_fetch_resolves_def demo_defs)
  have f3: "completion_resolves (Some flaky_api) algebra_course reading_lesson (world_at 0)"
    by (simp add: completion_resolves_def demo_defs)
  have n: "(coursesAPI_in_scope :: nat coursesAPI option) = None"
    by (simp add: coursesAPI_in_scope_def)
  have w: "filteredCourses (world_at 0) = [algebra_course, geometry_course]"
    "courseProgress (world_at 0) = 0" "console (world_at 0) = []"
    by (simp_all add: world_at_def)
  have u: "userId algebra_course = Some 42" "lesson_id reading_lesson = 2"
    "courseId algebra_course = 11"
    by (simp_all add: demo_defs)
  from C5_failure_changes_no_local_state [OF f1, of noon]
  have a: "filteredCourses
      (handleLessonComplete coursesAPI_in_scope noon algebra_course reading_lesson (world_at 0)) =
      [algebra_course, geometry_course]"
    "courseProgress
      (handleLessonComplete coursesAPI_in_scope noon algebra_course reading_lesson (world_at 0)) = 0"
    "console
      (handleLessonComplete coursesAPI_in_scope noon algebra_course reading_lesson (world_at 0)) =
      [''Error completing lesson or fetching progress:'']"
    "filter is_request
     (run_traffic (world_at 0)
        (handleLessonComplete coursesAPI_in_scope noon algebra_course reading_lesson (world_at 0))) = []"
    by (simp_all add: w n)
  from C5_failure_changes_no_local_state [OF f2, of noon] f3
  have b: "filteredCourses
      (handleLessonComplete (Some flaky_api) noon algebra_course reading_lesson (world_at 0)) =
      [algebra_course, geometry_course]"
    "filter is_request
     (run_traffic (world_at 0)
        (handleLessonComplete (Some flaky_api) noon algebra_course reading_lesson (world_at 0))) =
     [CompleteLessonRequest (Some 42) 2, GetCourseProgressRequest (Some 42) 11]"
    by (simp_all add: w u)
  show ?thesis using f1 f2 a b by simp
qed

text \<open>
  Claim C7. In every run the two backend calls are sequential: each request is answered
  before the next one leaves, the get-course-progress request leaves only right after the
  mark-lesson-complete call has resolved (and exactly when it has), and the progress fetch
  acts on the backend state that the completion call left.
\<close>

theorem C7_progress_fetch_follows_completion:
  "sequential (run_traffic w (handleLessonComplete binding now c l w)) \<and>
   fetch_after_completion None (run_traffic w (handleLessonComplete binding now c l w)) \<and>
   (GetCourseProgressRequest (userId c) (courseId c)
      \<in> set (run_traffic w (handleLessonComplete binding now c l w))) =
     completion_resolves binding c l w \<and>
   backend (handleLessonComplete binding now c l w) = backend_after binding c l (backend w)"
proof -
  have tr: "sequential (run_traffic w (handleLessonComplete binding now c l w)) \<and>
   fetch_after_completion None (run_traffic w (handleLessonComplete binding now c l w)) \<and>
   (GetCourseProgressRequest (userId c) (courseId c)
      \<in> set (run_traffic w (handleLessonComplete binding now c l w))) =
     completion_resolves binding c l w"
    unfolding handleLessonComplete_run_traffic
    by (auto simp: completion_resolves_def split: option.splits prod.splits sum.splits)
  show ?thesis using tr handleLessonComplete_backend by blast
qed

text \<open>In the module as it is no request leaves; with a client that counts the completed
  lessons the fetch sees the lesson counted; with a client that rejects the completion call
  no fetch leaves.\<close>

theorem C7_witness:
  "run_traffic (world_at 0)
     (handleLessonComplete coursesAPI_in_scope noon algebra_course reading_lesson (world_at 0)) = [] \<and>
   \<not> completion_resolves (coursesAPI_in_scope :: nat coursesAPI option)
       algebra_course reading_lesson (world_at 0) \<and>
   GetCourseProgressRequest (Some 42) 11
     \<notin> set (run_traffic (world_at 0)
         (handleLessonComplete coursesAPI_in_scope noon algebra_course reading_lesson (world_at 0))) \<and>
   backend
     (handleLessonComplete coursesAPI_in_scope noon algebra_course reading_lesson (world_at 0)) = 0 \<and>
   completion_resolves (Some counting_api) algebra_course reading_lesson (world_at 0) \<and>
   GetCourseProgressRequest (Some 42) 11
     \<in> set (run_traffic (world_at 0)
         (handleLessonComplete (Some counting_api) noon algebra_course reading_lesson (world_at 0))) \<and>
   backend
     (handleLessonComplete (Some counting_api) noon algebra_course reading_lesson (world_at 0)) = 1 \<and>
   \<not> completion_resolves (Some offline_api) algebra_course reading_lesson (world_at 0) \<and>
   GetCourseProgressRequest (Some 42) 11
     \<notin> set (run_traffic (world_at 0)
         (handleLessonComplete (Some offline_api) noon algebra_course reading_lesson (world_at 0)))"
proof -
  have e: "run_traffic (world_at 0)
     (handleLessonComplete coursesAPI_in_scope noon algebra_course reading_lesson (world_at 0)) = []"
    by (simp add: handleLessonComplete_run_traffic coursesAPI_in_scope_def)
  have n0: "\<not> completion_resolves (coursesAPI_in_scope :: nat coursesAPI option)
       algebra_course reading_lesson (world_at 0)"
    by (simp add: completion_resolves_def coursesAPI_in_scope_def)
  have n1: "completion_resolves (Some counting_api) algebra_course reading_lesson (world_at 0)"
    by (simp add: completion_resolves_def demo_defs)
  have n2: "\<not> completion_resolves (Some offline_api) algebra_course reading_lesson (world_at 0)"
    by (simp add: completion_resolves_def demo_defs)
  have b0: "backend_after (coursesAPI_in_scope :: nat coursesAPI option) algebra_course
      reading_lesson (backend (world_at 0)) = 0"
    by (simp add: backend_after_def demo_defs)
  have b1: "backend_after (Some counting_api) algebra_course reading_lesson (backend (world_at 0)) = 1"
    by (simp add: backend_after_def demo_defs)
  have u: "userId algebra_course = Some 42" "courseId algebra_course = 11"
    by (simp_all add: demo_defs)
  note t0 = C7_progress_fetch_follows_completion
    [of "world_at 0" "coursesAPI_in_scope" noon algebra_course reading_lesson]
  note t1 = C7_progress_fetch_follows_completion
    [of "world_at 0" "Some counting_api" noon algebra_course reading_lesson]
  note t2 = C7_progress_fetch_follows_completion
    [of "world_at 0" "Some offline_api" noon algebra_course reading_lesson]
  from t0 n0 u have r0: "GetCourseProgressRequest (Some 42) 11
     \<notin> set (run_traffic (world_at 0)
         (handleLessonComplete coursesAPI_in_scope noon algebra_course reading_lesson (world_at 0)))"
    by simp
  from t0 b0 have k0: "backend
     (handleLessonComplete coursesAPI_in_scope noon algebra_course reading_lesson (world_at 0)) = 0"
    by simp
  from t1 n1 u have r1: "GetCourseProgressRequest (Some 42) 11
     \<in> set (run_traffic (world_at 0)
         (handleLessonComplete (Some counting_api) noon algebra_course reading_lesson (world_at 0)))"
    by simp
  from t1 b1 have k1: "backend
     (handleLessonComplete (Some counting_api) noon algebra_course reading_lesson (world_at 0)) = 1"
    by simp
  from t2 n2 u have r2: "GetCourseProgressRequest (Some 42) 11
     \<notin> set (run_traffic (world_at 0)
         (handleLessonComplete (Some offline_api) noon algebra_course reading_lesson (world_at 0)))"
    by simp
  show ?thesis using e n0 n1 n2 r0 r1 r2 k0 k1 by simp
qed

subsection \<open>The two viewers of the course dialog\<close>

lemma handleLessonSelect_one_viewer: "one_viewer (handleLessonSelect l d)"
  by (simp add: handleLessonSelect_def one_viewer_def Let_def)

lemma handleResourceSelect_one_viewer:
  "one_viewer d \<Longrightarrow> one_viewer (handleResourceSelect r d)"
  by (auto simp: handleResourceSelect_def one_viewer_def)

lemma dialog_step_one_viewer: "one_viewer d \<Longrightarrow> one_viewer (dialog_step e d)"
  by (cases e)
    (simp_all add: handleLessonSelect_one_viewer handleResourceSelect_one_viewer,
     simp_all add: one_viewer_def)

lemma dialog_run_one_viewer: "one_viewer d \<Longrightarrow> one_viewer (dialog_run es d)"
  by (induction es arbitrary: d) (simp_all add: dialog_step_one_viewer)

lemma infer_video_lesson: "inferLessonType video_lesson = ''video''"
  by (simp add: inferLessonType_def video_lesson_def lesson_url_def or_js_def or_default_def
      truthy_def url_ext_def toLowerCase_def lower_char_def startsWith_def Let_def)

text \<open>
  Claim C4, as the code has it. Selecting a lesson first clears the selected media and the
  selected document; it then sets the media for a video or YouTube lesson, the document for
  a \<open>pdf\<close>, \<open>ppt\<close> or \<open>doc\<close> lesson, and neither otherwise. Selecting a video or YouTube
  resource sets the media and clears the document; selecting any other resource that is not
  a link sets the document and clears the media; both give the same state as clearing the
  two first. Selecting a link resource opens a window and leaves both as they were. After
  every sequence of selections and closings that starts in the initial dialog, at most one
  of the two is set.
\<close>

theorem C4_selection_keeps_one_viewer:
  "handleLessonSelect l d = handleLessonSelect l (clear_viewers d) \<and>
   selectedMedia (handleLessonSelect l d) =
     (if inferLessonType l = ''video'' \<or> inferLessonType l = ''youtube''
      then Some \<lparr>media_url = or_js (content_url l) (content_file l),
                 media_title = or_default (lesson_title l) ''Lesson Media'',
                 media_description = or_default (lesson_description l) [],
                 media_type = inferLessonType l\<rparr>
      else None) \<and>
   selectedDocument (handleLessonSelect l d) =
     (if inferLessonType l = ''pdf'' \<or> inferLessonType l = ''ppt'' \<or> inferLessonType l = ''doc''
      then Some \<lparr>document_url = or_js (content_url l) (content_file l),
                 document_title = or_default (lesson_title l) ''Lesson Document'',
                 document_type = Some (inferLessonType l)\<rparr>
      else None) \<and>
   (resource_type r = Some ''video'' \<or> resource_on_youtube r \<longrightarrow>
      selectedMedia (handleResourceSelect r d) =
        Some \<lparr>media_url = or_js (resource_content_url r) (resource_content_file r),
              media_title = or_default (resource_title r) ''Resource Media'',
              media_description = or_default (resource_description r) [],
              media_type = (if resource_on_youtube r then ''youtube'' else ''video'')\<rparr> \<and>
      selectedDocument (handleResourceSelect r d) = None) \<and>
   (link_resource r \<longrightarrow>
      selectedMedia (handleResourceSelect r d) = selectedMedia d \<and>
      selectedDocument (handleResourceSelect r d) = selectedDocument d \<and>
      opened_windows (handleResourceSelect r d) = opened_windows d @ [resource_content_url r]) \<and>
   (resource_type r \<noteq> Some ''video'' \<and> \<not> resource_on_youtube r \<and>
    resource_type r \<noteq> Some ''link'' \<longrightarrow>
      selectedDocument (handleResourceSelect r d) =
        Some \<lparr>document_url = or_js (resource_content_url r) (resource_content_file r),
              document_title = or_default (resource_title r) ''Resource Document'',
              document_type = resource_type r\<rparr> \<and>
      selectedMedia (handleResourceSelect r d) = None) \<and>
   (\<not> link_resource r \<longrightarrow> handleResourceSelect r d = handleResourceSelect r (clear_viewers d)) \<and>
   one_viewer (dialog_run es initial_dialog)"
proof -
  have a: "handleLessonSelect l d = handleLessonSelect l (clear_viewers d)"
    by (simp add: handleLessonSelect_def clear_viewers_def Let_def)
  have a1: "selectedMedia (handleLessonSelect l d) =
     (if inferLessonType l = ''video'' \<or> inferLessonType l = ''youtube''
      then Some \<lparr>media_url = or_js (content_url l) (content_file l),
                 media_title = or_default (lesson_title l) ''Lesson Media'',
                 media_description = or_default (lesson_description l) [],
                 media_type = inferLessonType l\<rparr>
      else None)"
    by (simp add: handleLessonSelect_def Let_def)
  have a2: "selectedDocument (handleLessonSelect l d) =
     (if inferLessonType l = ''pdf'' \<or> inferLessonType l = ''ppt'' \<or> inferLessonType l = ''doc''
      then Some \<lparr>document_url = or_js (content_url l) (content_file l),
                 document_title = or_default (lesson_title l) ''Lesson Document'',
                 document_type = Some (inferLessonType l)\<rparr>
      else None)"
    by (auto simp: handleLessonSelect_def Let_def)
  have m: "selectedMedia (handleResourceSelect r d) =
        Some \<lparr>media_url = or_js (resource_content_url r) (resource_content_file r),
              media_title = or_default (resource_title r) ''Resource Media'',
              media_description = or_default (resource_description r) [],
              media_type = (if resource_on_youtube r then ''youtube'' else ''video'')\<rparr> \<and>
      selectedDocument (handleResourceSelect r d) = None"
    if "resource_type r = Some ''video'' \<or> resource_on_youtube r"
    using that by (auto simp: handleResourceSelect_def)
  have b: "handleResourceSelect r d = handleResourceSelect r (clear_viewers d)"
    if "\<not> link_resource r"
    using that by (auto simp: handleResourceSelect_def clear_viewers_def link_resource_def)
  have c: "selectedMedia (handleResourceSelect r d) = selectedMedia d \<and>
      selectedDocument (handleResourceSelect r d) = selectedDocument d \<and>
      opened_windows (handleResourceSelect r d) = opened_windows d @ [resource_content_url r]"
    if "link_resource r"
    using that by (simp add: handleResourceSelect_def link_resource_def)
  have dc: "selectedDocument (handleResourceSelect r d) =
        Some \<lparr>document_url = or_js (resource_content_url r) (resource_content_file r),
              document_title = or_default (resource_title r) ''Resource Document'',
              document_type = resource_type r\<rparr> \<and>
      selectedMedia (handleResourceSelect r d) = None"
    if "resource_type r \<noteq> Some ''video'' \<and> \<not> resource_on_youtube r \<and>
      resource_type r \<noteq> Some ''link''"
    using that by (simp add: handleResourceSelect_def)
  have "one_viewer initial_dialog"
    by (simp add: one_viewer_def initial_dialog_def)
  then have e: "one_viewer (dialog_run es initial_dialog)"
    by (rule dialog_run_one_viewer)
  show ?thesis using a a1 a2 m b c dc e by blast
qed

text \<open>Selecting the link resource after a video lesson does not clear the selected media.\<close>

theorem C4_counterexample:
  "selectedMedia (dialog_run [LessonSelect video_lesson] initial_dialog) \<noteq> None \<and>
   selectedMedia (dialog_run [LessonSelect video_lesson, ResourceSelect link_to_forum] initial_dialog) =
     selectedMedia (dialog_run [LessonSelect video_lesson] initial_dialog)"
  by (simp add: handleLessonSelect_def infer_video_lesson handleResourceSelect_def
      link_to_forum_def resource_on_youtube_def initial_dialog_def Let_def)

theorem C4_witness:
  "link_resource link_to_forum \<and>
   selectedMedia (handleResourceSelect link_to_forum
      (dialog_run [LessonSelect video_lesson] initial_dialog)) =
     selectedMedia (dialog_run [LessonSelect video_lesson] initial_dialog) \<and>
   \<not> link_resource (link_to_forum\<lparr>resource_type := Some ''pdf''\<rparr>) \<and>
   selectedDocument (handleResourceSelect (link_to_forum\<lparr>resource_type := Some ''pdf''\<rparr>)
      (dialog_run [LessonSelect video_lesson] initial_dialog)) =
     Some \<lparr>document_url = Some ''https://forum.example.org'', document_title = ''Forum'',
           document_type = Some ''pdf''\<rparr> \<and>
   selectedMedia (handleResourceSelect (link_to_forum\<lparr>resource_type := Some ''pdf''\<rparr>)
      (dialog_run [LessonSelect video_lesson] initial_dialog)) = None \<and>
   selectedMedia (handleResourceSelect (link_to_forum\<lparr>resource_type := Some ''video''\<rparr>)
      initial_dialog) =
     Some \<lparr>media_url = Some ''https://forum.example.org'', media_title = ''Forum'',
           media_description = [], media_type = ''video''\<rparr> \<and>
   selectedMedia (handleLessonSelect video_lesson initial_dialog) =
     Some \<lparr>media_url = Some ''https://cdn.example.org/intro.mp4'', media_title = ''Intro'',
           media_description = [], media_type = ''video''\<rparr> \<and>
   one_viewer (dialog_run [LessonSelect video_lesson, ResourceSelect link_to_forum] initial_dialog)"
proof -
  let ?d = "dialog_run [LessonSelect video_lesson] initial_dialog"
  let ?pdf = "link_to_forum\<lparr>resource_type := Some ''pdf''\<rparr>"
  let ?vid = "link_to_forum\<lparr>resource_type := Some ''video''\<rparr>"
  have y: "\<not> resource_on_youtube link_to_forum" "\<not> resource_on_youtube ?pdf"
    "\<not> resource_on_youtube ?vid"
    by (simp_all add: link_to_forum_def resource_on_youtube_def)
  have l1: "link_resource link_to_forum"
    using y by (simp add: link_resource_def link_to_forum_def)
  have l2: "\<not> link_resource ?pdf"
    by (simp add: link_resource_def)
  have k2: "resource_type ?pdf \<noteq> Some ''video'' \<and> \<not> resource_on_youtube ?pdf \<and>
      resource_type ?pdf \<noteq> Some ''link''"
    using y by simp
  have k3: "resource_type ?vid = Some ''video'' \<or> resource_on_youtube ?vid"
    by simp
  have f: "or_js (resource_content_url ?pdf) (resource_content_file ?pdf) =
        Some ''https://forum.example.org''"
    "or_default (resource_title ?pdf) ''Resource Document'' = ''Forum''"
    "or_js (resource_content_url ?vid) (resource_content_file ?vid) =
        Some ''https://forum.example.org''"
    "or_default (resource_title ?vid) ''Resource Media'' = ''Forum''"
    "or_default (resource_description ?vid) [] = []"
    "or_js (content_url video_lesson) (content_file video_lesson) =
        Some ''https://cdn.example.org/intro.mp4''"
    "or_default (lesson_title video_lesson) ''Lesson Media'' = ''Intro''"
    "or_default (lesson_description video_lesson) [] = []"
    by (simp_all add: link_to_forum_def video_lesson_def or_js_def or_default_def truthy_def)
  note t1 = C4_selection_keeps_one_viewer
    [of video_lesson ?d link_to_forum "[LessonSelect video_lesson, ResourceSelect link_to_forum]"]
  note t2 = C4_selection_keeps_one_viewer [of video_lesson ?d ?pdf "[]"]
  note t3 = C4_selection_keeps_one_viewer [of video_lesson initial_dialog ?vid "[]"]
  from t1 l1 have a: "selectedMedia (handleResourceSelect link_to_forum ?d) = selectedMedia ?d"
    by blast
  from t1 have b: "one_viewer
      (dialog_run [LessonSelect video_lesson, ResourceSelect link_to_forum] initial_dialog)"
    by blast
  from t2 k2 have "selectedDocument (handleResourceSelect ?pdf ?d) =
        Some \<lparr>document_url = or_js (resource_content_url ?pdf) (resource_content_file ?pdf),
              document_title = or_default (resource_title ?pdf) ''Resource Document'',
              document_type = resource_type ?pdf\<rparr> \<and>
      selectedMedia (handleResourceSelect ?pdf ?d) = None"
    by blast
  then have c: "selectedDocument (handleResourceSelect ?pdf ?d) =
     Some \<lparr>document_url = Some ''https://forum.example.org'', document_title = ''Forum'',
           document_type = Some ''pdf''\<rparr>"
    "selectedMedia (handleResourceSelect ?pdf ?d) = None"
    unfolding f by simp_all
  from t3 k3 have "selectedMedia (handleResourceSelect ?vid initial_dialog) =
        Some \<lparr>media_url = or_js (resource_content_url ?vid) (resource_content_file ?vid),
              media_title = or_default (resource_title ?vid) ''Resource Media'',
              media_description = or_default (resource_description ?vid) [],
              media_type = (if resource_on_youtube ?vid then ''youtube'' else ''video'')\<rparr>"
    by blast
  then have v: "selectedMedia (handleResourceSelect ?vid initial_dialog) =
     Some \<lparr>media_url = Some ''https://forum.example.org'', media_title = ''Forum'',
           media_description = [], media_type = ''video''\<rparr>"
    unfolding f using y(3) by simp
  from t3 have "selectedMedia (handleLessonSelect video_lesson initial_dialog) =
     (if inferLessonType video_lesson = ''video'' \<or> inferLessonType video_lesson = ''youtube''
      then Some \<lparr>media_url = or_js (content_url video_lesson) (content_file video_lesson),
                 media_title = or_default (lesson_title video_lesson) ''Lesson Media'',
                 media_description = or_default (lesson_description video_lesson) [],
                 media_type = inferLessonType video_lesson\<rparr>
      else None)"
    by blast
  then have s: "selectedMedia (handleLessonSelect video_lesson initial_dialog) =
     Some \<lparr>media_url = Some ''https://cdn.example.org/intro.mp4'', media_title = ''Intro'',
           media_description = [], media_type = ''video''\<rparr>"
    unfolding f infer_video_lesson by simp
  show ?thesis using l1 l2 a b c v s by simp
qed

end
